theory Spec2Isabelle
  imports Main "HOL-Library.Sublist"
begin

section \<open>Python values and strings\<close>

text \<open>
  The extractor is a Python script (\<^verbatim>\<open>server/lib/document_sql_extractor.py\<close>).
  A Python \<^verbatim>\<open>str\<close> is modelled by \<^typ>\<open>string\<close>: a list of code points below 256.
  The operations of \<^verbatim>\<open>str\<close> the script calls are written out below as they behave
  on such strings.
\<close>

text \<open>\<^verbatim>\<open>str.isspace\<close> on one code point: below 256 the whitespace code points are
  9..13, 28..32, 133 and 160.\<close>

definition isspace :: "char \<Rightarrow> bool" where
  "isspace c =
     (let n = (of_char c :: nat)
      in (9 \<le> n \<and> n \<le> 13) \<or> (28 \<le> n \<and> n \<le> 32) \<or> n = 133 \<or> n = 160)"

text \<open>\<^verbatim>\<open>s.strip()\<close>: whitespace removed at both ends.\<close>

definition rstrip :: "string \<Rightarrow> string" where
  "rstrip s = rev (dropWhile isspace (rev s))"

definition strip :: "string \<Rightarrow> string" where
  "strip s = rstrip (dropWhile isspace s)"

text \<open>\<^verbatim>\<open>s.lower()\<close>: below 256 the cased upper letters are A..Z and the Latin-1
  letters 192..222 without the multiplication sign 215; each is 32 below its lower
  form.\<close>

definition lower_char :: "char \<Rightarrow> char" where
  "lower_char c =
     (let n = (of_char c :: nat)
      in if (65 \<le> n \<and> n \<le> 90) \<or> (192 \<le> n \<and> n \<le> 222 \<and> n \<noteq> 215)
         then char_of (n + 32) else c)"

definition lower :: "string \<Rightarrow> string" where
  "lower s = map lower_char s"

text \<open>\<^verbatim>\<open>s.endswith(t)\<close>, \<^verbatim>\<open>s.startswith(t)\<close> and \<^verbatim>\<open>t in s\<close>.\<close>

definition endswith :: "string \<Rightarrow> string \<Rightarrow> bool" where
  "endswith s t = suffix t s"

definition startswith :: "string \<Rightarrow> string \<Rightarrow> bool" where
  "startswith s t = prefix t s"

definition str_in :: "string \<Rightarrow> string \<Rightarrow> bool" where
  "str_in t s = sublist t s"

text \<open>\<^verbatim>\<open>s.find(c)\<close> for a one-character needle: the first index, or -1.\<close>

definition find_char :: "string \<Rightarrow> char \<Rightarrow> int" where
  "find_char s c = (if c \<in> set s then int (length (takeWhile (\<lambda>x. x \<noteq> c) s)) else - 1)"

text \<open>\<^verbatim>\<open>sep.join(xs)\<close>.\<close>

fun join :: "string \<Rightarrow> string list \<Rightarrow> string" where
  "join sep [] = []"
| "join sep [x] = x"
| "join sep (x # y # ys) = x @ sep @ join sep (y # ys)"

text \<open>\<^verbatim>\<open>s.replace(old, new)\<close> for a non-empty \<open>old\<close>: the occurrences are replaced
  from the left and do not overlap.\<close>

function replace :: "string \<Rightarrow> string \<Rightarrow> string \<Rightarrow> string" where
  "replace old new [] = []"
| "replace old new (c # cs) =
     (if old \<noteq> [] \<and> prefix old (c # cs)
      then new @ replace old new (drop (length old) (c # cs))
      else c # replace old new cs)"
  by pat_completeness auto
termination
  by (relation "measure (\<lambda>(old, new, s). length s)") (auto simp: neq_Nil_conv)

text \<open>\<^verbatim>\<open>s.split()\<close>: the maximal runs of non-whitespace, in order.\<close>

function split_ws :: "string \<Rightarrow> string list" where
  "split_ws s =
     (let t = dropWhile isspace s
      in if t = [] then []
         else takeWhile (\<lambda>c. \<not> isspace c) t # split_ws (dropWhile (\<lambda>c. \<not> isspace c) t))"
  by pat_completeness auto
termination
proof (relation "measure length")
  show "wf (measure length)" by simp
next
  fix s t :: string
  assume t: "t = dropWhile isspace s" and ne: "t \<noteq> []"
  have "\<not> isspace (hd t)"
    using t ne hd_dropWhile by metis
  then have "length (dropWhile (\<lambda>c. \<not> isspace c) t) < length t"
    using ne by (cases t) (auto intro: le_imp_less_Suc length_dropWhile_le)
  also have "length t \<le> length s"
    using t by (simp add: length_dropWhile_le)
  finally show "(dropWhile (\<lambda>c. \<not> isspace c) t, s) \<in> measure length"
    by simp
qed

text \<open>
  The values \<^verbatim>\<open>json.loads\<close> returns. A number only meets a truth test in this
  script, so a JSON number is kept as an integer with the same truth value.
\<close>

datatype json =
    JNull
  | JBool bool
  | JNum int
  | JStr string
  | JArr "json list"
  | JObj "(string \<times> json) list"

text \<open>Python's truth test, as \<^verbatim>\<open>or\<close> and \<^verbatim>\<open>not\<close> apply it.\<close>

fun truthy :: "json \<Rightarrow> bool" where
  "truthy JNull = False"
| "truthy (JBool b) = b"
| "truthy (JNum n) = (n \<noteq> 0)"
| "truthy (JStr s) = (s \<noteq> [])"
| "truthy (JArr xs) = (xs \<noteq> [])"
| "truthy (JObj kvs) = (kvs \<noteq> [])"

definition py_or :: "json \<Rightarrow> json \<Rightarrow> json" where
  "py_or a b = (if truthy a then a else b)"

text \<open>The exceptions that travel through the script. (What \<^verbatim>\<open>json.loads\<close>,
  \<^verbatim>\<open>b64decode\<close> and \<^verbatim>\<open>int\<close> raise is caught where they are called.)\<close>

datatype py_error =
    AttributeError
  | KeyError
  | BadZipFile
  | ParseError

section \<open>Kind detection\<close>

text \<open>
  \<^verbatim>\<open>
  def detect_kind(name: str, mime: str):
      lower_name = (name or "").lower()
      if lower_name.endswith(".docx") or lower_name.endswith(".doc") or "wordprocessingml" in (mime or "").lower():
          return "word"
      if lower_name.endswith(".xlsx") or lower_name.endswith(".xls") or "spreadsheetml" in (mime or "").lower():
          return "excel"
      return ""
  \<close>
  \<^verbatim>\<open>.lower()\<close> exists on a \<^verbatim>\<open>str\<close> only: on any other truthy value it raises
  AttributeError. The \<^verbatim>\<open>mime\<close> operand is evaluated only when the filename tests
  before it fail.
\<close>

definition py_lower :: "json \<Rightarrow> py_error + string" where
  "py_lower v = (case v of JStr s \<Rightarrow> Inr (lower s) | _ \<Rightarrow> Inl AttributeError)"

definition detect_kind :: "json \<Rightarrow> json \<Rightarrow> py_error + string" where
  "detect_kind name mime =
     (case py_lower (py_or name (JStr [])) of
        Inl e \<Rightarrow> Inl e
      | Inr lower_name \<Rightarrow>
          if endswith lower_name ''.docx'' \<or> endswith lower_name ''.doc'' then Inr ''word''
          else
            (case py_lower (py_or mime (JStr [])) of
               Inl e \<Rightarrow> Inl e
             | Inr lower_mime \<Rightarrow>
                 if str_in ''wordprocessingml'' lower_mime then Inr ''word''
                 else if endswith lower_name ''.xlsx'' \<or> endswith lower_name ''.xls''
                   then Inr ''excel''
                 else if str_in ''spreadsheetml'' lower_mime then Inr ''excel''
                 else Inr []))"


section \<open>Library values: element trees, archives, library calls\<close>

text \<open>
  An \<^verbatim>\<open>xml.etree.ElementTree\<close> element, with what the script reads of it: the tag
  (a namespaced tag is \<^verbatim>\<open>{uri}local\<close>), the attribute dictionary, the text before
  the first child (\<open>None\<close> when there is none) and the children in document order.
\<close>

datatype xml =
  Element (tag: string) (attrib: "(string \<times> string) list")
    (node_text: "string option") (children: "xml list")

definition WORD_NS :: string where
  "WORD_NS = ''http://schemas.openxmlformats.org/wordprocessingml/2006/main''"

definition SHEET_NS :: string where
  "SHEET_NS = ''http://schemas.openxmlformats.org/spreadsheetml/2006/main''"

text \<open>The tag a prefixed name of a path stands for: \<^verbatim>\<open>w:t\<close> under \<^verbatim>\<open>WORD_NS\<close> is
  \<^verbatim>\<open>{http://...wordprocessingml/2006/main}t\<close>.\<close>

definition qname :: "string \<Rightarrow> string \<Rightarrow> string" where
  "qname ns local = ''{'' @ ns @ ''}'' @ local"

text \<open>The elements below an element, in document order, the element itself left out.\<close>

fun descendants :: "xml \<Rightarrow> xml list" where
  "descendants (Element tg at tx cs) = concat (map (\<lambda>c. c # descendants c) cs)"

text \<open>\<^verbatim>\<open>e.findall(".//p:x", NS)\<close>, \<^verbatim>\<open>e.findall("p:x", NS)\<close> and
  \<^verbatim>\<open>e.find("p:x", NS)\<close>, given the tag \<^verbatim>\<open>p:x\<close> stands for.\<close>

definition findall_desc :: "string \<Rightarrow> xml \<Rightarrow> xml list" where
  "findall_desc tg e = filter (\<lambda>x. tag x = tg) (descendants e)"

definition findall_child :: "string \<Rightarrow> xml \<Rightarrow> xml list" where
  "findall_child tg e = filter (\<lambda>x. tag x = tg) (children e)"

definition find_child :: "string \<Rightarrow> xml \<Rightarrow> xml option" where
  "find_child tg e = List.find (\<lambda>x. tag x = tg) (children e)"

text \<open>\<^verbatim>\<open>node.text or ""\<close>.\<close>

definition text_or_empty :: "xml \<Rightarrow> string" where
  "text_or_empty node = (case node_text node of None \<Rightarrow> [] | Some t \<Rightarrow> t)"

text \<open>
  An opened \<^verbatim>\<open>zipfile.ZipFile\<close>: its members in directory order, each a name and
  its content (\<open>None\<close> for a member whose data cannot be read: a bad checksum, an
  unsupported compression). \<^verbatim>\<open>namelist()\<close> lists every member; \<^verbatim>\<open>read(name)\<close>
  looks the name up in a dictionary filled in directory order, so the last member of a
  name is the one read, and a name of no member raises KeyError. The type \<open>'b\<close> stands
  for \<^verbatim>\<open>bytes\<close>.
\<close>

type_synonym 'b archive = "(string \<times> 'b option) list"

definition namelist :: "'b archive \<Rightarrow> string list" where
  "namelist archive = map fst archive"

definition archive_read :: "'b archive \<Rightarrow> string \<Rightarrow> py_error + 'b" where
  "archive_read archive name =
     (case map_of (rev archive) name of
        None \<Rightarrow> Inl KeyError
      | Some None \<Rightarrow> Inl BadZipFile
      | Some (Some data) \<Rightarrow> Inr data)"

text \<open>
  The library calls whose results the script depends on are parameters of the model,
  so that every theorem holds whatever they return. \<open>None\<close> is the call raising:
  \<^item> \<open>json_loads\<close>: \<^verbatim>\<open>json.loads\<close> (raises on text that is not JSON);
  \<^item> \<open>b64decode\<close>: \<^verbatim>\<open>base64.b64decode\<close> (raises \<^verbatim>\<open>binascii.Error\<close>);
  \<^item> \<open>zip_open\<close>: \<^verbatim>\<open>zipfile.ZipFile(io.BytesIO(buff))\<close> (raises BadZipFile);
  \<^item> \<open>fromstring\<close>: \<^verbatim>\<open>ET.fromstring\<close> (raises ParseError);
  \<^item> \<open>decode_ignore\<close>: \<^verbatim>\<open>bytes.decode(errors="ignore")\<close> (never raises);
  \<^item> \<open>py_int\<close>: \<^verbatim>\<open>int(s)\<close> on a string (raises ValueError).
\<close>

record 'b env =
  json_loads :: "string \<Rightarrow> json option"
  b64decode :: "string \<Rightarrow> 'b option"
  zip_open :: "'b \<Rightarrow> 'b archive option"
  fromstring :: "'b \<Rightarrow> xml option"
  decode_ignore :: "'b \<Rightarrow> string"
  py_int :: "string \<Rightarrow> int option"


section \<open>The extractors\<close>

definition NL :: string where
  "NL = [CHR 0x0A]"

text \<open>
  \<^verbatim>\<open>
  def extract_word_text(buff: bytes):
      with zipfile.ZipFile(io.BytesIO(buff)) as archive:
          try:
              document = archive.read("word/document.xml")
          except KeyError:
              return ""
          root = ET.fromstring(document)
          texts = [node.text or "" for node in root.findall(".//w:t", WORD_NS)]
          return "\n".join([t for t in texts if t.strip()])
  \<close>
\<close>

definition extract_word_text :: "'b env \<Rightarrow> 'b \<Rightarrow> py_error + string" where
  "extract_word_text L buff =
     (case zip_open L buff of
        None \<Rightarrow> Inl BadZipFile
      | Some archive \<Rightarrow>
          (case archive_read archive ''word/document.xml'' of
             Inl e \<Rightarrow> if e = KeyError then Inr [] else Inl e
           | Inr document \<Rightarrow>
               (case fromstring L document of
                  None \<Rightarrow> Inl ParseError
                | Some root \<Rightarrow>
                    (let texts = map text_or_empty (findall_desc (qname WORD_NS ''t'') root)
                     in Inr (join NL (filter (\<lambda>t. strip t \<noteq> []) texts))))))"

text \<open>
  \<^verbatim>\<open>
  def _load_shared_strings(archive: zipfile.ZipFile):
      try:
          data = archive.read("xl/sharedStrings.xml")
      except KeyError:
          return []
      root = ET.fromstring(data)
      values = []
      for t in root.findall(".//s:t", SHEET_NS):
          values.append(t.text or "")
      return values
  \<close>
\<close>

definition load_shared_strings :: "'b env \<Rightarrow> 'b archive \<Rightarrow> py_error + string list" where
  "load_shared_strings L archive =
     (case archive_read archive ''xl/sharedStrings.xml'' of
        Inl e \<Rightarrow> if e = KeyError then Inr [] else Inl e
      | Inr data \<Rightarrow>
          (case fromstring L data of
             None \<Rightarrow> Inl ParseError
           | Some root \<Rightarrow>
               Inr (fold (\<lambda>t values. values @ [text_or_empty t])
                      (findall_desc (qname SHEET_NS ''t'') root) [])))"

text \<open>
  \<^verbatim>\<open>
  def _cell_value(cell, shared_strings):
      cell_type = cell.attrib.get("t")
      if cell_type == "s":
          value = cell.find("s:v", SHEET_NS)
          if value is not None and value.text is not None:
              try:
                  index = int(value.text)
                  if 0 <= index < len(shared_strings):
                      return shared_strings[index]
              except Exception:
                  return ""
          return ""

      inline = cell.find("s:is", SHEET_NS)
      if inline is not None:
          texts = [t.text or "" for t in inline.findall(".//s:t", SHEET_NS)]
          if texts:
              return "".join(texts)

      value = cell.find("s:v", SHEET_NS)
      return value.text if value is not None else ""
  \<close>
  The result is a string or, in the last line, the \<^verbatim>\<open>None\<close> of a value node
  without text: \<open>None\<close> below.
\<close>

definition plain_value :: "xml \<Rightarrow> string option" where
  "plain_value cell =
     (case find_child (qname SHEET_NS ''v'') cell of
        None \<Rightarrow> Some []
      | Some v \<Rightarrow> node_text v)"

definition cell_value :: "'b env \<Rightarrow> xml \<Rightarrow> string list \<Rightarrow> string option" where
  "cell_value L cell shared_strings =
     (if map_of (attrib cell) ''t'' = Some ''s'' then
        (case find_child (qname SHEET_NS ''v'') cell of
           None \<Rightarrow> Some []
         | Some v \<Rightarrow>
             (case node_text v of
                None \<Rightarrow> Some []
              | Some txt \<Rightarrow>
                  (case py_int L txt of
                     None \<Rightarrow> Some []
                   | Some index \<Rightarrow>
                       if 0 \<le> index \<and> index < int (length shared_strings)
                       then Some (shared_strings ! nat index)
                       else Some [])))
      else
        (case find_child (qname SHEET_NS ''is'') cell of
           None \<Rightarrow> plain_value cell
         | Some inline \<Rightarrow>
             (let texts = map text_or_empty (findall_desc (qname SHEET_NS ''t'') inline)
              in if texts \<noteq> [] then Some (concat texts) else plain_value cell)))"


text \<open>
  \<^verbatim>\<open>
  def extract_excel_text(buff: bytes):
      with zipfile.ZipFile(io.BytesIO(buff)) as archive:
          shared_strings = _load_shared_strings(archive)
          rows = []
          for name in archive.namelist():
              if not name.startswith("xl/worksheets/") or not name.endswith(".xml"):
                  continue
              content = archive.read(name)
              root = ET.fromstring(content)
              for row in root.findall(".//s:row", SHEET_NS):
                  cells = [
                      (_cell_value(cell, shared_strings) or "").strip()
                      for cell in row.findall("s:c", SHEET_NS)
                  ]
                  joined = " ".join([c for c in cells if c])
                  if joined:
                      rows.append(joined)
          return "\n".join(rows)
  \<close>
  \<open>row_text\<close> is \<^verbatim>\<open>joined\<close> for one row, \<open>sheet_rows\<close> the inner loop over the rows
  of one worksheet and \<open>excel_rows\<close> the outer loop over the member names; both carry
  the list \<^verbatim>\<open>rows\<close>.
\<close>

definition row_text :: "'b env \<Rightarrow> string list \<Rightarrow> xml \<Rightarrow> string" where
  "row_text L shared_strings row =
     (let cells =
            map (\<lambda>cell. strip (case cell_value L cell shared_strings of
                                  None \<Rightarrow> [] | Some v \<Rightarrow> v))
              (findall_child (qname SHEET_NS ''c'') row)
      in join '' '' (filter (\<lambda>c. c \<noteq> []) cells))"

definition sheet_rows :: "'b env \<Rightarrow> string list \<Rightarrow> xml \<Rightarrow> string list \<Rightarrow> string list" where
  "sheet_rows L shared_strings root rows =
     fold (\<lambda>row rows.
             (let joined = row_text L shared_strings row
              in if joined \<noteq> [] then rows @ [joined] else rows))
       (findall_desc (qname SHEET_NS ''row'') root) rows"

fun excel_rows ::
  "'b env \<Rightarrow> 'b archive \<Rightarrow> string list \<Rightarrow> string list \<Rightarrow> string list
     \<Rightarrow> py_error + string list" where
  "excel_rows L archive shared_strings [] rows = Inr rows"
| "excel_rows L archive shared_strings (name # names) rows =
     (if \<not> startswith name ''xl/worksheets/'' \<or> \<not> endswith name ''.xml''
      then excel_rows L archive shared_strings names rows
      else
        (case archive_read archive name of
           Inl e \<Rightarrow> Inl e
         | Inr content \<Rightarrow>
             (case fromstring L content of
                None \<Rightarrow> Inl ParseError
              | Some root \<Rightarrow>
                  excel_rows L archive shared_strings names
                    (sheet_rows L shared_strings root rows))))"

definition extract_excel_text :: "'b env \<Rightarrow> 'b \<Rightarrow> py_error + string" where
  "extract_excel_text L buff =
     (case zip_open L buff of
        None \<Rightarrow> Inl BadZipFile
      | Some archive \<Rightarrow>
          (case load_shared_strings L archive of
             Inl e \<Rightarrow> Inl e
           | Inr shared_strings \<Rightarrow>
               (case excel_rows L archive shared_strings (namelist archive) [] of
                  Inl e \<Rightarrow> Inl e
                | Inr rows \<Rightarrow> Inr (join NL rows))))"


text \<open>
  \<^verbatim>\<open>
  def _decode_entities(text: str) -> str:
      return (
          (text or "")
          .replace("&quot;", '"')
          .replace("&apos;", "'")
          .replace("&lt;", "<")
          .replace("&gt;", ">")
          .replace("&amp;", "&")
      )

  def _strip_xml_tags(xml_text: str) -> str:
      return (
          _decode_entities(xml_text or "")
          .replace("\r", " ")
          .replace("\n", " ")
          .replace("\t", " ")
          .replace("<", " <")
          .replace(">", "> ")
          .split()
      )
  \<close>
  Both are called on a \<^verbatim>\<open>str\<close>. The second returns the list of the words.
\<close>

definition decode_entities :: "string \<Rightarrow> string" where
  "decode_entities text =
     replace ''&amp;'' ''&''
       (replace ''&gt;'' ''>''
         (replace ''&lt;'' ''<''
           (replace ''&apos;'' [CHR 0x27]
             (replace ''&quot;'' [CHR 0x22] text))))"

definition strip_xml_tags :: "string \<Rightarrow> string list" where
  "strip_xml_tags xml_text =
     split_ws
       (replace ''>'' ''> ''
         (replace ''<'' '' <''
           (replace [CHR 0x09] '' ''
             (replace [CHR 0x0A] '' ''
               (replace [CHR 0x0D] '' ''
                 (decode_entities xml_text))))))"

text \<open>
  \<^verbatim>\<open>
  def extract_fallback_xml_text(buff: bytes):
      rows = []
      with zipfile.ZipFile(io.BytesIO(buff)) as archive:
          for name in archive.namelist():
              if not name.lower().endswith(".xml"):
                  continue
              try:
                  xml_bytes = archive.read(name)
              except KeyError:
                  continue
              flattened = " ".join(_strip_xml_tags(xml_bytes.decode(errors="ignore")))
              if flattened.strip():
                  rows.append(flattened.strip())
      return "\n".join(rows)
  \<close>
  \<open>flatten\<close> is \<^verbatim>\<open>flattened.strip()\<close> for one member's bytes, \<open>fallback_rows\<close> the
  loop, carrying \<^verbatim>\<open>rows\<close>.
\<close>

definition flatten :: "'b env \<Rightarrow> 'b \<Rightarrow> string" where
  "flatten L xml_bytes = strip (join '' '' (strip_xml_tags (decode_ignore L xml_bytes)))"

fun fallback_rows ::
  "'b env \<Rightarrow> 'b archive \<Rightarrow> string list \<Rightarrow> string list \<Rightarrow> py_error + string list" where
  "fallback_rows L archive [] rows = Inr rows"
| "fallback_rows L archive (name # names) rows =
     (if \<not> endswith (lower name) ''.xml'' then fallback_rows L archive names rows
      else
        (case archive_read archive name of
           Inl e \<Rightarrow> if e = KeyError then fallback_rows L archive names rows else Inl e
         | Inr xml_bytes \<Rightarrow>
             if flatten L xml_bytes \<noteq> []
             then fallback_rows L archive names (rows @ [flatten L xml_bytes])
             else fallback_rows L archive names rows))"

definition extract_fallback_xml_text :: "'b env \<Rightarrow> 'b \<Rightarrow> py_error + string" where
  "extract_fallback_xml_text L buff =
     (case zip_open L buff of
        None \<Rightarrow> Inl BadZipFile
      | Some archive \<Rightarrow>
          (case fallback_rows L archive (namelist archive) [] of
             Inl e \<Rightarrow> Inl e
           | Inr rows \<Rightarrow> Inr (join NL rows)))"


section \<open>The entry point\<close>

text \<open>
  \<^verbatim>\<open>
  def _normalise_base64_payload(text: str) -> str:
      if not text:
          return ""
      trimmed = text.strip()
      if not trimmed.startswith("data:"):
          return trimmed
      comma = trimmed.find(",")
      return trimmed if comma == -1 else trimmed[comma + 1 :]
  \<close>
  \<^verbatim>\<open>.strip()\<close> on a truthy value that is not a \<^verbatim>\<open>str\<close> raises AttributeError.
\<close>

definition normalise_base64_payload :: "json \<Rightarrow> py_error + string" where
  "normalise_base64_payload text =
     (if \<not> truthy text then Inr []
      else
        (case text of
           JStr s \<Rightarrow>
             (let trimmed = strip s
              in if \<not> startswith trimmed ''data:'' then Inr trimmed
                 else
                   (let comma = find_char trimmed (CHR '','')
                    in Inr (if comma = - 1 then trimmed else drop (nat (comma + 1)) trimmed)))
         | _ \<Rightarrow> Inl AttributeError))"

text \<open>
  \<^verbatim>\<open>
  def _safe_load_json(text: str):
      try:
          return json.loads(text)
      except Exception:
          return {}
  \<close>
\<close>

definition safe_load_json :: "'b env \<Rightarrow> string \<Rightarrow> json" where
  "safe_load_json L text = (case json_loads L text of None \<Rightarrow> JObj [] | Some v \<Rightarrow> v)"

text \<open>\<^verbatim>\<open>payload.get(key)\<close>: only a \<^verbatim>\<open>dict\<close> has the method; on a list, a string,
  a number, a boolean or \<^verbatim>\<open>None\<close> the attribute lookup raises AttributeError. A
  missing key gives \<^verbatim>\<open>None\<close>. The pairs of \<open>JObj\<close> are the items of the dictionary.\<close>

definition py_get :: "json \<Rightarrow> string \<Rightarrow> py_error + json" where
  "py_get payload key =
     (case payload of
        JObj kvs \<Rightarrow> Inr (case map_of kvs key of None \<Rightarrow> JNull | Some v \<Rightarrow> v)
      | _ \<Rightarrow> Inl AttributeError)"

text \<open>
  \<^verbatim>\<open>
  def main():
      payload = _safe_load_json(sys.stdin.read())
      base64_data = payload.get("base64") or payload.get("data") or ""
      name = payload.get("name") or ""
      mime = payload.get("mime") or ""

      normalised_base64 = _normalise_base64_payload(base64_data)

      if not normalised_base64:
          json.dump({"text": ""}, sys.stdout)
          return

      kind = detect_kind(name, mime)
      if not kind:
          json.dump({"text": ""}, sys.stdout)
          return

      try:
          raw_bytes = base64.b64decode(normalised_base64)
      except Exception:
          json.dump({"text": ""}, sys.stdout)
          return

      try:
          if kind == "word":
              text = extract_word_text(raw_bytes)
          else:
              text = extract_excel_text(raw_bytes)
      except Exception:
          text = ""

      if not text.strip():
          try:
              text = extract_fallback_xml_text(raw_bytes)
          except Exception:
              text = ""

      json.dump({"text": text or ""}, sys.stdout)
  \<close>
  The object written to the standard output is a record with the one field of the
  dictionary \<^verbatim>\<open>{"text": ...}\<close>. A run of \<open>main\<close> that does not raise is recorded
  with the stages it went through: whether \<^verbatim>\<open>b64decode\<close> was called, what the
  structured extractor and the fallback returned or raised (\<open>None\<close> for a stage that
  was not called), and the objects written, in order.
\<close>

record extraction_result =
  out_text :: string

record run =
  decode_called :: bool
  structured :: "(py_error + string) option"
  fallback :: "(py_error + string) option"
  emitted :: "extraction_result list"

definition request_fields :: "json \<Rightarrow> py_error + json \<times> json \<times> json" where
  "request_fields payload =
     (case py_get payload ''base64'' of
        Inl e \<Rightarrow> Inl e
      | Inr b \<Rightarrow>
          (case py_get payload ''data'' of
             Inl e \<Rightarrow> Inl e
           | Inr d \<Rightarrow>
               (case py_get payload ''name'' of
                  Inl e \<Rightarrow> Inl e
                | Inr n \<Rightarrow>
                    (case py_get payload ''mime'' of
                       Inl e \<Rightarrow> Inl e
                     | Inr m \<Rightarrow>
                         Inr (py_or (py_or b d) (JStr []), py_or n (JStr []),
                              py_or m (JStr []))))))"

definition caught :: "py_error + string \<Rightarrow> string" where
  "caught r = (case r of Inl e \<Rightarrow> [] | Inr t \<Rightarrow> t)"

definition pipeline :: "'b env \<Rightarrow> json \<Rightarrow> json \<Rightarrow> json \<Rightarrow> py_error + run" where
  "pipeline L base64_data name mime =
     (case normalise_base64_payload base64_data of
        Inl e \<Rightarrow> Inl e
      | Inr normalised_base64 \<Rightarrow>
          if normalised_base64 = [] then
            Inr \<lparr>decode_called = False, structured = None, fallback = None,
                 emitted = [\<lparr>out_text = []\<rparr>]\<rparr>
          else
            (case detect_kind name mime of
               Inl e \<Rightarrow> Inl e
             | Inr kind \<Rightarrow>
                 if kind = [] then
                   Inr \<lparr>decode_called = False, structured = None, fallback = None,
                        emitted = [\<lparr>out_text = []\<rparr>]\<rparr>
                 else
                   (case b64decode L normalised_base64 of
                      None \<Rightarrow>
                        Inr \<lparr>decode_called = True, structured = None, fallback = None,
                             emitted = [\<lparr>out_text = []\<rparr>]\<rparr>
                    | Some raw_bytes \<Rightarrow>
                        (let s = (if kind = ''word'' then extract_word_text L raw_bytes
                                  else extract_excel_text L raw_bytes)
                         in if strip (caught s) = [] then
                              (let f = extract_fallback_xml_text L raw_bytes
                               in Inr \<lparr>decode_called = True, structured = Some s,
                                       fallback = Some f,
                                       emitted = [\<lparr>out_text = caught f\<rparr>]\<rparr>)
                            else
                              Inr \<lparr>decode_called = True, structured = Some s,
                                   fallback = None,
                                   emitted = [\<lparr>out_text = caught s\<rparr>]\<rparr>))))"

definition main_run :: "'b env \<Rightarrow> string \<Rightarrow> py_error + run" where
  "main_run L stdin =
     (case request_fields (safe_load_json L stdin) of
        Inl e \<Rightarrow> Inl e
      | Inr (base64_data, name, mime) \<Rightarrow> pipeline L base64_data name mime)"

text \<open>What \<open>main\<close> leaves for its caller: the exception, or the objects written.\<close>

definition main :: "'b env \<Rightarrow> string \<Rightarrow> py_error + extraction_result list" where
  "main L stdin = (case main_run L stdin of Inl e \<Rightarrow> Inl e | Inr r \<Rightarrow> Inr (emitted r))"


section \<open>Sample inputs\<close>

text \<open>
  The theorems below hold for every library environment. To apply them to concrete
  inputs, \<open>sample_env\<close> is an environment that returns what Python's library returns
  on the inputs listed here and raises on every other input. Its \<^verbatim>\<open>bytes\<close> are
  described by their content: \<open>Text s\<close> is the UTF-8 encoding of the text \<open>s\<close>,
  \<open>Zip ms\<close> a ZIP archive holding the members \<open>ms\<close> (stored, in this order). The
  base64 strings are the encodings of such archives; each is written as its first 28
  characters, its middle and its last 4 characters, so that its ends can be inspected
  without unfolding the middle.
\<close>

datatype blob = Text string | Zip "(string \<times> blob) list"

definition broken_docx_document_text :: string where
  \<open>broken_docx_document_text =
     ''<a>hello''\<close>

definition textless_docx_document_text :: string where
  \<open>textless_docx_document_text =
     ''<w:document xmlns:w="http://schemas.openxmlformats.org/wordprocessingm'' @
     ''l/2006/main"><w:body/></w:document>''\<close>

definition textless_docx_document_tree :: xml where
  "textless_docx_document_tree =
     Element (qname WORD_NS ''document'') [] None
       [Element (qname WORD_NS ''body'') [] None []]"

definition textless_docx_app_text :: string where
  \<open>textless_docx_app_text =
     ''<Properties>Hi &amp; bye</Properties>''\<close>

definition textless_docx_app_tree :: xml where
  "textless_docx_app_tree =
     Element ''Properties'' [] (Some ''Hi & bye'') []"

definition runs_docx_document_text :: string where
  \<open>runs_docx_document_text =
     ''<w:document xmlns:w="http://schemas.openxmlformats.org/wordprocessingm'' @
     ''l/2006/main"><w:body><w:p><w:r><w:t>Hello</w:t></w:r><w:r><w:t> </w:t>'' @
     ''</w:r><w:r><w:t>World</w:t></w:r></w:p></w:body></w:document>''\<close>

definition runs_docx_document_tree :: xml where
  "runs_docx_document_tree =
     Element (qname WORD_NS ''document'') [] None
       [Element (qname WORD_NS ''body'') [] None
          [Element (qname WORD_NS ''p'') [] None
             [Element (qname WORD_NS ''r'') [] None
                [Element (qname WORD_NS ''t'') [] (Some ''Hello'') []],
              Element (qname WORD_NS ''r'') [] None
                [Element (qname WORD_NS ''t'') [] (Some '' '') []],
              Element (qname WORD_NS ''r'') [] None
                [Element (qname WORD_NS ''t'') [] (Some ''World'') []]]]]"

definition book_xlsx_sharedStrings_text :: string where
  \<open>book_xlsx_sharedStrings_text =
     ''<sst xmlns="http://schemas.openxmlformats.org/spreadsheetml/2006/main"'' @
     ''><si><t>A</t></si><si><t>B</t></si></sst>''\<close>

definition book_xlsx_sharedStrings_tree :: xml where
  "book_xlsx_sharedStrings_tree =
     Element (qname SHEET_NS ''sst'') [] None
       [Element (qname SHEET_NS ''si'') [] None
          [Element (qname SHEET_NS ''t'') [] (Some ''A'') []],
        Element (qname SHEET_NS ''si'') [] None
          [Element (qname SHEET_NS ''t'') [] (Some ''B'') []]]"

definition book_xlsx_sheet1_text :: string where
  \<open>book_xlsx_sheet1_text =
     ''<worksheet xmlns="http://schemas.openxmlformats.org/spreadsheetml/2006'' @
     ''/main"><sheetData><row><c t="s"><v>0</v></c><c t="inlineStr"><is><t>C<'' @
     ''/t></is></c><c><v>5</v></c></row><row><c t="s"><v>99</v></c><c><v>X</v'' @
     ''></c></row><row><c><v> </v></c></row></sheetData></worksheet>''\<close>

definition book_xlsx_sheet1_tree :: xml where
  "book_xlsx_sheet1_tree =
     Element (qname SHEET_NS ''worksheet'') [] None
       [Element (qname SHEET_NS ''sheetData'') [] None
          [Element (qname SHEET_NS ''row'') [] None
             [Element (qname SHEET_NS ''c'') [(''t'', ''s'')] None
                [Element (qname SHEET_NS ''v'') [] (Some ''0'') []],
              Element (qname SHEET_NS ''c'') [(''t'', ''inlineStr'')] None
                [Element (qname SHEET_NS ''is'') [] None
                   [Element (qname SHEET_NS ''t'') [] (Some ''C'') []]],
              Element (qname SHEET_NS ''c'') [] None
                [Element (qname SHEET_NS ''v'') [] (Some ''5'') []]],
           Element (qname SHEET_NS ''row'') [] None
             [Element (qname SHEET_NS ''c'') [(''t'', ''s'')] None
                [Element (qname SHEET_NS ''v'') [] (Some ''99'') []],
              Element (qname SHEET_NS ''c'') [] None
                [Element (qname SHEET_NS ''v'') [] (Some ''X'') []]],
           Element (qname SHEET_NS ''row'') [] None
             [Element (qname SHEET_NS ''c'') [] None
                [Element (qname SHEET_NS ''v'') [] (Some '' '') []]]]]"

definition broken_docx :: blob where
  "broken_docx =
     Zip [(''word/document.xml'', Text broken_docx_document_text)]"

definition broken_docx_base64_middle :: string where
  "broken_docx_base64_middle =
     ''AAgAAAARAAAAd29yZC9kb2N1bWVudC54bWw8YT5oZWxsb1BLAQIUAxQAAAAAAAAAIQBM6cNUCAAA'' @
     ''AAgAAAARAAAAAAAAAAAAAACAAQAAAAB3b3JkL2RvY3VtZW50LnhtbFBLBQYAAAAAAQABAD8AAAA3'' @
     ''AAAA''"

definition broken_docx_base64 :: string where
  "broken_docx_base64 =
     ''UEsDBBQAAAAAAAAAIQBM6cNUCAAA'' @ broken_docx_base64_middle @ ''AAA=''"

definition textless_docx :: blob where
  "textless_docx =
     Zip [(''word/document.xml'', Text textless_docx_document_text),
          (''docProps/app.xml'', Text textless_docx_app_text)]"

definition textless_docx_base64_middle :: string where
  "textless_docx_base64_middle =
     ''AGkAAAARAAAAd29yZC9kb2N1bWVudC54bWw8dzpkb2N1bWVudCB4bWxuczp3PSJodHRwOi8vc2No'' @
     ''ZW1hcy5vcGVueG1sZm9ybWF0cy5vcmcvd29yZHByb2Nlc3NpbmdtbC8yMDA2L21haW4iPjx3OmJv'' @
     ''ZHkvPjwvdzpkb2N1bWVudD5QSwMEFAAAAAAAAAAhAHDR330lAAAAJQAAABAAAABkb2NQcm9wcy9h'' @
     ''cHAueG1sPFByb3BlcnRpZXM+SGkgJmFtcDsgYnllPC9Qcm9wZXJ0aWVzPlBLAQIUAxQAAAAAAAAA'' @
     ''IQBM12HDaQAAAGkAAAARAAAAAAAAAAAAAACAAQAAAAB3b3JkL2RvY3VtZW50LnhtbFBLAQIUAxQA'' @
     ''AAAAAAAAIQBw0d99JQAAACUAAAAQAAAAAAAAAAAAAACAAZgAAABkb2NQcm9wcy9hcHAueG1sUEsF'' @
     ''BgAAAAACAAIAfQAAAOsAAAAA''"

definition textless_docx_base64 :: string where
  "textless_docx_base64 =
     ''UEsDBBQAAAAAAAAAIQBM12HDaQAA'' @ textless_docx_base64_middle @ ''AA==''"

definition runs_docx :: blob where
  "runs_docx =
     Zip [(''word/document.xml'', Text runs_docx_document_text)]"

definition runs_docx_base64_middle :: string where
  "runs_docx_base64_middle =
     ''AMkAAAARAAAAd29yZC9kb2N1bWVudC54bWw8dzpkb2N1bWVudCB4bWxuczp3PSJodHRwOi8vc2No'' @
     ''ZW1hcy5vcGVueG1sZm9ybWF0cy5vcmcvd29yZHByb2Nlc3NpbmdtbC8yMDA2L21haW4iPjx3OmJv'' @
     ''ZHk+PHc6cD48dzpyPjx3OnQ+SGVsbG88L3c6dD48L3c6cj48dzpyPjx3OnQ+IDwvdzp0Pjwvdzpy'' @
     ''Pjx3OnI+PHc6dD5Xb3JsZDwvdzp0PjwvdzpyPjwvdzpwPjwvdzpib2R5Pjwvdzpkb2N1bWVudD5Q'' @
     ''SwECFAMUAAAAAAAAACEAvjWZXMkAAADJAAAAEQAAAAAAAAAAAAAAgAEAAAAAd29yZC9kb2N1bWVu'' @
     ''dC54bWxQSwUGAAAAAAEAAQA/AAAA+AAA''"

definition runs_docx_base64 :: string where
  "runs_docx_base64 =
     ''UEsDBBQAAAAAAAAAIQC+NZlcyQAA'' @ runs_docx_base64_middle @ ''AAAA''"

definition book_xlsx :: blob where
  "book_xlsx =
     Zip [(''xl/sharedStrings.xml'', Text book_xlsx_sharedStrings_text),
          (''xl/worksheets/sheet1.xml'', Text book_xlsx_sheet1_text)]"

definition book_xlsx_base64_middle :: string where
  "book_xlsx_base64_middle =
     ''AG8AAAAUAAAAeGwvc2hhcmVkU3RyaW5ncy54bWw8c3N0IHhtbG5zPSJodHRwOi8vc2NoZW1hcy5v'' @
     ''cGVueG1sZm9ybWF0cy5vcmcvc3ByZWFkc2hlZXRtbC8yMDA2L21haW4iPjxzaT48dD5BPC90Pjwv'' @
     ''c2k+PHNpPjx0PkI8L3Q+PC9zaT48L3NzdD5QSwMEFAAAAAAAAAAhAOhoGlMPAQAADwEAABgAAAB4'' @
     ''bC93b3Jrc2hlZXRzL3NoZWV0MS54bWw8d29ya3NoZWV0IHhtbG5zPSJodHRwOi8vc2NoZW1hcy5v'' @
     ''cGVueG1sZm9ybWF0cy5vcmcvc3ByZWFkc2hlZXRtbC8yMDA2L21haW4iPjxzaGVldERhdGE+PHJv'' @
     ''dz48YyB0PSJzIj48dj4wPC92PjwvYz48YyB0PSJpbmxpbmVTdHIiPjxpcz48dD5DPC90PjwvaXM+'' @
     ''PC9jPjxjPjx2PjU8L3Y+PC9jPjwvcm93Pjxyb3c+PGMgdD0icyI+PHY+OTk8L3Y+PC9jPjxjPjx2'' @
     ''Plg8L3Y+PC9jPjwvcm93Pjxyb3c+PGM+PHY+IDwvdj48L2M+PC9yb3c+PC9zaGVldERhdGE+PC93'' @
     ''b3Jrc2hlZXQ+UEsBAhQDFAAAAAAAAAAhADP93L5vAAAAbwAAABQAAAAAAAAAAAAAAIABAAAAAHhs'' @
     ''L3NoYXJlZFN0cmluZ3MueG1sUEsBAhQDFAAAAAAAAAAhAOhoGlMPAQAADwEAABgAAAAAAAAAAAAA'' @
     ''AIABoQAAAHhsL3dvcmtzaGVldHMvc2hlZXQxLnhtbFBLBQYAAAAAAgACAIgAAADmAQAA''"

definition book_xlsx_base64 :: string where
  "book_xlsx_base64 =
     ''UEsDBBQAAAAAAAAAIQAz/dy+bwAA'' @ book_xlsx_base64_middle @ ''AAA=''"

text \<open>\<^verbatim>\<open>ET.fromstring\<close> on the member texts above: the first is not well-formed
  (its element is never closed), so it has no row.\<close>

definition sample_trees :: "(string \<times> xml) list" where
  "sample_trees =
     [(textless_docx_document_text, textless_docx_document_tree),
      (textless_docx_app_text, textless_docx_app_tree),
      (runs_docx_document_text, runs_docx_document_tree),
      (book_xlsx_sharedStrings_text, book_xlsx_sharedStrings_tree),
      (book_xlsx_sheet1_text, book_xlsx_sheet1_tree)]"

text \<open>\<^verbatim>\<open>base64.b64decode\<close>: the four archives, and \<^verbatim>\<open>QUJD\<close>, the encoding of
  \<^verbatim>\<open>ABC\<close>.\<close>

definition sample_payloads :: "(string \<times> blob) list" where
  "sample_payloads =
     [(broken_docx_base64, broken_docx),
      (textless_docx_base64, textless_docx),
      (runs_docx_base64, runs_docx),
      (book_xlsx_base64, book_xlsx),
      (''QUJD'', Text ''ABC'')]"

text \<open>\<^verbatim>\<open>int(s)\<close> on ASCII decimal digits with an optional sign, whitespace around
  them allowed; every other text is refused.\<close>

fun dec_digits :: "string \<Rightarrow> int \<Rightarrow> int option" where
  "dec_digits [] acc = Some acc"
| "dec_digits (c # cs) acc =
     (let n = (of_char c :: int)
      in if 48 \<le> n \<and> n \<le> 57 then dec_digits cs (10 * acc + (n - 48)) else None)"

definition dec_int :: "string \<Rightarrow> int option" where
  "dec_int s =
     (case strip s of
        [] \<Rightarrow> None
      | c # cs \<Rightarrow>
          if cs \<noteq> [] \<and> c = CHR ''-'' then map_option uminus (dec_digits cs 0)
          else if cs \<noteq> [] \<and> c = CHR ''+'' then dec_digits cs 0
          else dec_digits (c # cs) 0)"

text \<open>\<^verbatim>\<open>json.loads\<close> on the texts sent on the standard input in the examples.\<close>

definition broken_docx_stdin :: string where
  \<open>broken_docx_stdin = ''{"base64": "'' @ broken_docx_base64 @ ''", "name": "a.docx"}''\<close>

definition textless_docx_stdin :: string where
  \<open>textless_docx_stdin = ''{"data": "'' @ textless_docx_base64 @ ''", "name": "memo.docx"}''\<close>

definition runs_docx_stdin :: string where
  \<open>runs_docx_stdin = ''{"base64": "'' @ runs_docx_base64 @ ''", "name": "letter.docx"}''\<close>

definition notes_stdin :: string where
  \<open>notes_stdin = ''{"base64": "QUJD", "name": "notes.txt", "mime": "text/plain"}''\<close>

definition bad_base64_stdin :: string where
  \<open>bad_base64_stdin = ''{"base64": "A", "name": "a.docx"}''\<close>

definition not_zip_stdin :: string where
  \<open>not_zip_stdin = ''{"base64": "QUJD", "name": "a.docx"}''\<close>

definition sample_requests :: "(string \<times> json) list" where
  "sample_requests =
     [(broken_docx_stdin,
         JObj [(''base64'', JStr broken_docx_base64), (''name'', JStr ''a.docx'')]),
      (textless_docx_stdin,
         JObj [(''data'', JStr textless_docx_base64), (''name'', JStr ''memo.docx'')]),
      (runs_docx_stdin,
         JObj [(''base64'', JStr runs_docx_base64), (''name'', JStr ''letter.docx'')]),
      (notes_stdin,
         JObj [(''base64'', JStr ''QUJD''), (''name'', JStr ''notes.txt''),
               (''mime'', JStr ''text/plain'')]),
      (bad_base64_stdin, JObj [(''base64'', JStr ''A''), (''name'', JStr ''a.docx'')]),
      (not_zip_stdin, JObj [(''base64'', JStr ''QUJD''), (''name'', JStr ''a.docx'')]),
      (''{}'', JObj []),
      (''[]'', JArr []),
      (''null'', JNull),
      (''5'', JNum 5)]"

definition sample_env :: "blob env" where
  "sample_env =
     \<lparr>json_loads = map_of sample_requests,
      b64decode = map_of sample_payloads,
      zip_open = (\<lambda>b. case b of Zip ms \<Rightarrow> Some (map (\<lambda>(n, c). (n, Some c)) ms)
                           | Text s \<Rightarrow> None),
      fromstring = (\<lambda>b. case b of Text s \<Rightarrow> map_of sample_trees s | Zip ms \<Rightarrow> None),
      decode_ignore = (\<lambda>b. case b of Text s \<Rightarrow> s | Zip ms \<Rightarrow> []),
      py_int = dec_int\<rparr>"

text \<open>The archive \<open>zip_open\<close> makes of the workbook.\<close>

definition book_archive :: "blob archive" where
  "book_archive =
     [(''xl/sharedStrings.xml'', Some (Text book_xlsx_sharedStrings_text)),
      (''xl/worksheets/sheet1.xml'', Some (Text book_xlsx_sheet1_text))]"

text \<open>The two members of \<open>textless_docx\<close>, flattened.\<close>

definition textless_docx_flat_document :: string where
  \<open>textless_docx_flat_document =
     ''<w:document xmlns:w="http://schemas.openxmlformats.org/wordprocessingm'' @
     ''l/2006/main"> <w:body/> </w:document>''\<close>

definition textless_docx_flat_app :: string where
  "textless_docx_flat_app = ''<Properties> Hi & bye </Properties>''"

definition textless_archive :: "blob archive" where
  "textless_archive =
     [(''word/document.xml'', Some (Text textless_docx_document_text)),
      (''docProps/app.xml'', Some (Text textless_docx_app_text))]"


section \<open>The classifier's precedence\<close>

text \<open>
  The two criteria as the specification words them: the filename is compared without
  regard to case, the MIME string is searched for the markup substring.
\<close>

definition word_family_spec :: "string \<Rightarrow> string \<Rightarrow> bool" where
  "word_family_spec name mime =
     (endswith (lower name) ''.docx'' \<or> endswith (lower name) ''.doc''
      \<or> str_in ''wordprocessingml'' mime)"

definition sheet_family_spec :: "string \<Rightarrow> string \<Rightarrow> bool" where
  "sheet_family_spec name mime =
     (endswith (lower name) ''.xlsx'' \<or> endswith (lower name) ''.xls''
      \<or> str_in ''spreadsheetml'' mime)"

text \<open>The same criteria with the MIME string searched without regard to case, as
  \<open>detect_kind\<close> lowers it before the search.\<close>

definition word_family :: "string \<Rightarrow> string \<Rightarrow> bool" where
  "word_family name mime =
     (endswith (lower name) ''.docx'' \<or> endswith (lower name) ''.doc''
      \<or> str_in ''wordprocessingml'' (lower mime))"

definition sheet_family :: "string \<Rightarrow> string \<Rightarrow> bool" where
  "sheet_family name mime =
     (endswith (lower name) ''.xlsx'' \<or> endswith (lower name) ''.xls''
      \<or> str_in ''spreadsheetml'' (lower mime))"

section \<open>Cell resolution, as the specification words it\<close>

text \<open>The integer a cell's value node parses as, when the cell has a value node with a
  text that \<^verbatim>\<open>int\<close> accepts.\<close>

definition shared_index :: "'b env \<Rightarrow> xml \<Rightarrow> int option" where
  "shared_index L cell =
     (case find_child (qname SHEET_NS ''v'') cell of
        None \<Rightarrow> None
      | Some v \<Rightarrow> (case node_text v of None \<Rightarrow> None | Some txt \<Rightarrow> py_int L txt))"

text \<open>The concatenation, with no separator, of the text nodes nested under an
  inline-string element.\<close>

definition inline_text :: "xml \<Rightarrow> string" where
  "inline_text inline = concat (map text_or_empty (findall_desc (qname SHEET_NS ''t'') inline))"

text \<open>The cells of the examples: a reference to the shared string 0, a reference to the
  shared string 99, an inline string, two literal values, and a cell whose inline-string
  child is empty (\<^verbatim>\<open><c><is/><v>5</v></c>\<close>).\<close>

definition ref_cell :: "string \<Rightarrow> xml" where
  "ref_cell i =
     Element (qname SHEET_NS ''c'') [(''t'', ''s'')] None
       [Element (qname SHEET_NS ''v'') [] (Some i) []]"

definition inline_cell :: "string \<Rightarrow> xml" where
  "inline_cell s =
     Element (qname SHEET_NS ''c'') [(''t'', ''inlineStr'')] None
       [Element (qname SHEET_NS ''is'') [] None
          [Element (qname SHEET_NS ''t'') [] (Some s) []]]"

definition literal_cell :: "string \<Rightarrow> xml" where
  "literal_cell s =
     Element (qname SHEET_NS ''c'') [] None
       [Element (qname SHEET_NS ''v'') [] (Some s) []]"

definition empty_inline_cell :: xml where
  "empty_inline_cell =
     Element (qname SHEET_NS ''c'') [] None
       [Element (qname SHEET_NS ''is'') [] None [],
        Element (qname SHEET_NS ''v'') [] (Some ''5'') []]"

definition row_of :: "xml list \<Rightarrow> xml" where
  "row_of cells = Element (qname SHEET_NS ''row'') [] None cells"

section \<open>Word runs and row assembly, as the specification words them\<close>

text \<open>A text is whitespace-only when every character of it is whitespace.\<close>

definition whitespace_only :: "string \<Rightarrow> bool" where
  "whitespace_only t = list_all isspace t"

text \<open>The texts of the text-run nodes (\<^verbatim>\<open>w:t\<close>) of a parsed main document, in
  document order.\<close>

definition word_runs :: "xml \<Rightarrow> string list" where
  "word_runs root = map text_or_empty (findall_desc (qname WORD_NS ''t'') root)"

text \<open>Row assembly: the resolved values of a row are trimmed and the non-empty ones
  joined with a single space; rows whose joined text is empty are dropped and the others
  joined with newlines.\<close>

definition assemble_row :: "string list \<Rightarrow> string" where
  "assemble_row values = join '' '' (filter (\<lambda>c. c \<noteq> []) (map strip values))"

definition assemble_rows :: "string list list \<Rightarrow> string" where
  "assemble_rows rows = join NL (filter (\<lambda>r. r \<noteq> []) (map assemble_row rows))"

text \<open>The resolved value of a cell as the extractor uses it (\<^verbatim>\<open>_cell_value(...) or ""\<close>),
  the resolved values of the cells of every row of a parsed worksheet, and the names of
  the worksheet members of an archive.\<close>

definition resolved :: "'b env \<Rightarrow> string list \<Rightarrow> xml \<Rightarrow> string" where
  "resolved L shared cell = (case cell_value L cell shared of None \<Rightarrow> [] | Some v \<Rightarrow> v)"

definition sheet_cells :: "'b env \<Rightarrow> string list \<Rightarrow> xml \<Rightarrow> string list list" where
  "sheet_cells L shared root =
     map (\<lambda>row. map (resolved L shared) (findall_child (qname SHEET_NS ''c'') row))
       (findall_desc (qname SHEET_NS ''row'') root)"

definition worksheet_names :: "'b archive \<Rightarrow> string list" where
  "worksheet_names archive =
     filter (\<lambda>n. startswith n ''xl/worksheets/'' \<and> endswith n ''.xml'') (namelist archive)"

text \<open>A member name is read and parsed to a tree.\<close>

definition parses_to :: "'b env \<Rightarrow> 'b archive \<Rightarrow> string \<Rightarrow> xml \<Rightarrow> bool" where
  "parses_to L archive name root =
     (case archive_read archive name of
        Inl e \<Rightarrow> False
      | Inr content \<Rightarrow> fromstring L content = Some root)"

section \<open>The fallback, as the specification words it\<close>

text \<open>The members the fallback flattens: every member whose name, lowered, ends in
  \<^verbatim>\<open>.xml\<close>, in member order. A member is readable when \<^verbatim>\<open>read\<close> returns its bytes;
  \<open>flat_member\<close> is its flattened text.\<close>

definition xml_member_names :: "'b archive \<Rightarrow> string list" where
  "xml_member_names archive = filter (\<lambda>n. endswith (lower n) ''.xml'') (namelist archive)"

definition readable :: "'b archive \<Rightarrow> string \<Rightarrow> bool" where
  "readable archive name = (case archive_read archive name of Inl e \<Rightarrow> False | Inr d \<Rightarrow> True)"

definition flat_member :: "'b env \<Rightarrow> 'b archive \<Rightarrow> string \<Rightarrow> string" where
  "flat_member L archive name =
     (case archive_read archive name of Inl e \<Rightarrow> [] | Inr d \<Rightarrow> flatten L d)"


text \<open>Facts that evaluate the string operations on literals.\<close>

lemmas str_eval =
  isspace_def strip_def rstrip_def lower_def lower_char_def char_of_def bit_Suc_0_iff
  endswith_def startswith_def str_in_def suffix_to_prefix sublist_Cons_right find_char_def

lemma qname_eq [simp]: "qname ns a = qname ns b \<longleftrightarrow> a = b"
  by (simp add: qname_def)

lemmas xml_eval =
  findall_desc_def findall_child_def find_child_def text_or_empty_def plain_value_def

lemmas cell_samples =
  ref_cell_def inline_cell_def literal_cell_def empty_inline_cell_def row_of_def

lemma sample_env_sel [simp]:
  "py_int sample_env = dec_int"
  "json_loads sample_env = map_of sample_requests"
  "b64decode sample_env = map_of sample_payloads"
  "zip_open sample_env (Zip ms) = Some (map (\<lambda>(n, c). (n, Some c)) ms)"
  "zip_open sample_env (Text s) = None"
  "fromstring sample_env (Text s) = map_of sample_trees s"
  "fromstring sample_env (Zip ms) = None"
  "decode_ignore sample_env (Text s) = s"
  by (simp_all add: sample_env_def)

lemma dec_int_samples [simp]:
  "dec_int ''0'' = Some 0" "dec_int ''99'' = Some 99" "dec_int ''5'' = Some 5"
  "dec_int ''X'' = None" "dec_int '' '' = None"
  by (simp_all add: dec_int_def str_eval)

lemmas sample_text_defs =
  broken_docx_document_text_def textless_docx_document_text_def textless_docx_app_text_def
  runs_docx_document_text_def book_xlsx_sharedStrings_text_def book_xlsx_sheet1_text_def

lemma sample_parse [simp]:
  "map_of sample_trees broken_docx_document_text = None"
  "map_of sample_trees textless_docx_document_text = Some textless_docx_document_tree"
  "map_of sample_trees textless_docx_app_text = Some textless_docx_app_tree"
  "map_of sample_trees runs_docx_document_text = Some runs_docx_document_tree"
  "map_of sample_trees book_xlsx_sharedStrings_text = Some book_xlsx_sharedStrings_tree"
  "map_of sample_trees book_xlsx_sheet1_text = Some book_xlsx_sheet1_tree"
  by (simp_all add: sample_trees_def sample_text_defs)

lemmas sample_stdin_defs =
  broken_docx_stdin_def textless_docx_stdin_def runs_docx_stdin_def notes_stdin_def
  bad_base64_stdin_def not_zip_stdin_def

lemmas sample_base64_defs =
  broken_docx_base64_def textless_docx_base64_def runs_docx_base64_def book_xlsx_base64_def


lemma detect_kind_str:
  "detect_kind (JStr name) (JStr mime) =
     Inr (if word_family name mime then ''word''
          else if sheet_family name mime then ''excel'' else [])"
  by (cases "name = []"; cases "mime = []")
     (auto simp: detect_kind_def py_lower_def py_or_def word_family_def sheet_family_def
        lower_def)

text \<open>
  C7, as stated, fails: a pair that meets neither criterion of the specification is
  classified as a Word document when its MIME string holds the markup substring in
  another case.
\<close>

theorem detect_kind_mime_case_counterexample:
  "\<not> word_family_spec ''report.txt''
        ''application/vnd.openxmlformats-officedocument.WordprocessingML.document''
   \<and> \<not> sheet_family_spec ''report.txt''
        ''application/vnd.openxmlformats-officedocument.WordprocessingML.document''
   \<and> detect_kind (JStr ''report.txt'')
        (JStr ''application/vnd.openxmlformats-officedocument.WordprocessingML.document'')
       = Inr ''word''"
  by (simp add: word_family_spec_def sheet_family_spec_def detect_kind_def py_lower_def
      py_or_def str_eval)

text \<open>
  C7, amended: with both criteria read without regard to case in the filename and in
  the MIME string, a pair that meets both is classified as a Word document, and a pair
  that meets neither is classified as unknown (the empty kind).
\<close>

theorem detect_kind_precedence:
  "(word_family name mime \<and> sheet_family name mime
      \<longrightarrow> detect_kind (JStr name) (JStr mime) = Inr ''word'')
   \<and> (\<not> word_family name mime \<and> \<not> sheet_family name mime
      \<longrightarrow> detect_kind (JStr name) (JStr mime) = Inr [])"
  by (simp add: detect_kind_str)

theorem detect_kind_precedence_witness:
  "word_family ''Book.XLSX'' ''application/vnd.ms-word.wordprocessingml''
   \<and> sheet_family ''Book.XLSX'' ''application/vnd.ms-word.wordprocessingml''
   \<and> detect_kind (JStr ''Book.XLSX'') (JStr ''application/vnd.ms-word.wordprocessingml'')
       = Inr ''word''
   \<and> \<not> word_family ''notes.txt'' ''text/plain''
   \<and> \<not> sheet_family ''notes.txt'' ''text/plain''
   \<and> detect_kind (JStr ''notes.txt'') (JStr ''text/plain'') = Inr []"
  using detect_kind_precedence [of "''Book.XLSX''" "''application/vnd.ms-word.wordprocessingml''"]
    detect_kind_precedence [of "''notes.txt''" "''text/plain''"]
  by (simp add: word_family_def sheet_family_def str_eval)

section \<open>Shared-string cells\<close>

lemma cell_value_shared:
  assumes "map_of (attrib cell) ''t'' = Some ''s''"
  shows "cell_value L cell shared =
           (case shared_index L cell of
              None \<Rightarrow> Some []
            | Some i \<Rightarrow> if 0 \<le> i \<and> i < int (length shared) then Some (shared ! nat i)
                        else Some [])"
  using assms by (simp add: cell_value_def shared_index_def split: option.splits)

text \<open>
  C2: for a cell whose type attribute is the shared-string marker \<^verbatim>\<open>s\<close>, when the
  value node parses as an integer within the bounds of the shared-string table the
  resolved value is the table's entry at that index; when it parses as an integer
  outside the bounds, or does not parse (or is missing), the resolved value is the empty
  string, and \<open>cell_value\<close> returns a value in every case. A row with a reference to
  index 99 against the table A, B and a cell resolving to X has the row text X.
\<close>

theorem shared_string_cell:
  assumes "map_of (attrib cell) ''t'' = Some ''s''"
  shows "(\<forall>i. shared_index L cell = Some i \<and> 0 \<le> i \<and> i < int (length shared)
            \<longrightarrow> cell_value L cell shared = Some (shared ! nat i))
       \<and> ((shared_index L cell = None
            \<or> (\<exists>i. shared_index L cell = Some i \<and> (i < 0 \<or> int (length shared) \<le> i)))
            \<longrightarrow> cell_value L cell shared = Some [])
       \<and> row_text sample_env [''A'', ''B''] (row_of [ref_cell ''99'', literal_cell ''X'']) = ''X''"
proof (intro conjI allI impI)
  fix i
  assume "shared_index L cell = Some i \<and> 0 \<le> i \<and> i < int (length shared)"
  then show "cell_value L cell shared = Some (shared ! nat i)"
    by (simp add: cell_value_shared [OF assms])
next
  assume "shared_index L cell = None
    \<or> (\<exists>i. shared_index L cell = Some i \<and> (i < 0 \<or> int (length shared) \<le> i))"
  then show "cell_value L cell shared = Some []"
    by (auto simp: cell_value_shared [OF assms])
next
  show "row_text sample_env [''A'', ''B''] (row_of [ref_cell ''99'', literal_cell ''X'']) = ''X''"
    by (simp add: row_text_def cell_value_def cell_samples xml_eval str_eval)
qed

theorem shared_string_cell_witness:
  "map_of (attrib (ref_cell ''0'')) ''t'' = Some ''s''
   \<and> shared_index sample_env (ref_cell ''0'') = Some 0
   \<and> cell_value sample_env (ref_cell ''0'') [''A'', ''B''] = Some ''A''
   \<and> map_of (attrib (ref_cell ''99'')) ''t'' = Some ''s''
   \<and> shared_index sample_env (ref_cell ''99'') = Some 99
   \<and> cell_value sample_env (ref_cell ''99'') [''A'', ''B''] = Some []
   \<and> shared_index sample_env (ref_cell ''X'') = None
   \<and> cell_value sample_env (ref_cell ''X'') [''A'', ''B''] = Some []"
proof -
  have t: "map_of (attrib (ref_cell i)) ''t'' = Some ''s''" for i
    by (simp add: ref_cell_def)
  have i0: "shared_index sample_env (ref_cell ''0'') = Some 0"
    and i99: "shared_index sample_env (ref_cell ''99'') = Some 99"
    and iX: "shared_index sample_env (ref_cell ''X'') = None"
    by (simp_all add: shared_index_def ref_cell_def xml_eval)
  show ?thesis
    using shared_string_cell [OF t, of sample_env "''0''" "[''A'', ''B'']"]
      shared_string_cell [OF t, of sample_env "''99''" "[''A'', ''B'']"]
      shared_string_cell [OF t, of sample_env "''X''" "[''A'', ''B'']"]
      t i0 i99 iX
    by simp
qed


section \<open>Inline-string cells\<close>

text \<open>
  C3, as stated, fails: the cell \<^verbatim>\<open><c><is/><v>5</v></c>\<close> is not a shared-string cell
  and has an inline-string child; no text node is nested under that child, so their
  concatenation is empty, yet the cell resolves to the text of its value node.
\<close>

theorem inline_string_counterexample:
  "map_of (attrib empty_inline_cell) ''t'' \<noteq> Some ''s''
   \<and> find_child (qname SHEET_NS ''is'') empty_inline_cell
       = Some (Element (qname SHEET_NS ''is'') [] None [])
   \<and> inline_text (Element (qname SHEET_NS ''is'') [] None []) = []
   \<and> cell_value sample_env empty_inline_cell [] = Some ''5''"
  by (simp add: cell_value_def inline_text_def empty_inline_cell_def xml_eval)

text \<open>
  C3, amended: for a cell whose type attribute is not the shared-string marker and
  whose (first) inline-string child has at least one text node nested under it, the
  resolved value is the concatenation, with no separator, of all text nodes nested under
  that child; the cell's plain value node is consulted when the cell has no
  inline-string child or no text node is nested under it.
\<close>

theorem inline_string_cell:
  assumes "map_of (attrib cell) ''t'' \<noteq> Some ''s''"
  shows "(\<forall>inline. find_child (qname SHEET_NS ''is'') cell = Some inline
              \<and> findall_desc (qname SHEET_NS ''t'') inline \<noteq> []
            \<longrightarrow> cell_value L cell shared = Some (inline_text inline))
       \<and> ((find_child (qname SHEET_NS ''is'') cell = None
            \<or> (\<exists>inline. find_child (qname SHEET_NS ''is'') cell = Some inline
                  \<and> findall_desc (qname SHEET_NS ''t'') inline = []))
            \<longrightarrow> cell_value L cell shared = plain_value cell)"
  using assms by (auto simp: cell_value_def inline_text_def)

theorem inline_string_cell_witness:
  "map_of (attrib (inline_cell ''C'')) ''t'' \<noteq> Some ''s''
   \<and> cell_value sample_env (inline_cell ''C'') [''A'', ''B''] = Some ''C''
   \<and> map_of (attrib (literal_cell ''5'')) ''t'' \<noteq> Some ''s''
   \<and> find_child (qname SHEET_NS ''is'') (literal_cell ''5'') = None
   \<and> cell_value sample_env (literal_cell ''5'') [''A'', ''B''] = Some ''5''"
proof -
  have a: "map_of (attrib (inline_cell ''C'')) ''t'' \<noteq> Some ''s''"
    and b: "map_of (attrib (literal_cell ''5'')) ''t'' \<noteq> Some ''s''"
    by (simp_all add: inline_cell_def literal_cell_def)
  show ?thesis
    using inline_string_cell [OF a, of sample_env "[''A'', ''B'']"]
      inline_string_cell [OF b, of sample_env "[''A'', ''B'']"] a b
    by (simp add: inline_text_def cell_samples xml_eval)
qed


section \<open>The Word extractor\<close>

lemma strip_Nil_iff: "strip t = [] \<longleftrightarrow> whitespace_only t"
proof
  assume "whitespace_only t"
  then have "dropWhile isspace t = []"
    by (simp add: whitespace_only_def list_all_iff)
  then show "strip t = []"
    unfolding strip_def rstrip_def by (simp only: rev.simps dropWhile.simps)
next
  assume a: "strip t = []"
  let ?u = "dropWhile isspace t"
  have all: "list_all isspace ?u"
    using a by (simp add: strip_def rstrip_def list_all_iff)
  have "?u = []"
  proof (rule ccontr)
    assume ne: "?u \<noteq> []"
    then have "\<not> isspace (hd ?u)" by (metis hd_dropWhile)
    moreover have "hd ?u \<in> set ?u" using ne by (rule hd_in_set)
    ultimately show False using all by (simp add: list_all_iff)
  qed
  then show "whitespace_only t"
    by (simp add: whitespace_only_def list_all_iff)
qed

lemma extract_word_text_parsed:
  assumes "zip_open L buff = Some archive"
    and "archive_read archive ''word/document.xml'' = Inr document"
    and "fromstring L document = Some root"
  shows "extract_word_text L buff =
           Inr (join NL (filter (\<lambda>t. \<not> whitespace_only t) (word_runs root)))"
  using assms by (simp add: extract_word_text_def word_runs_def strip_Nil_iff)

lemma length_filter_not:
  "length (filter (\<lambda>x. \<not> P x) xs) = length xs - length (filter P xs)"
  using sum_length_filter_compl [of P xs] by simp

text \<open>
  C6: when the archive opens and its member \<^verbatim>\<open>word/document.xml\<close> parses to a tree
  with N text-run nodes of which M are whitespace-only, the Word extractor returns the
  texts of the other runs joined by newlines; these are N - M texts and they stand in
  document order (they are the run texts with the whitespace-only ones left out).
\<close>

theorem word_runs_extracted:
  assumes "zip_open L buff = Some archive"
    and "archive_read archive ''word/document.xml'' = Inr document"
    and "fromstring L document = Some root"
  shows "extract_word_text L buff =
           Inr (join NL (filter (\<lambda>t. \<not> whitespace_only t) (word_runs root)))
       \<and> length (filter (\<lambda>t. \<not> whitespace_only t) (word_runs root)) =
           length (word_runs root) - length (filter whitespace_only (word_runs root))
       \<and> subseq (filter (\<lambda>t. \<not> whitespace_only t) (word_runs root)) (word_runs root)"
  using extract_word_text_parsed [OF assms] by (simp add: length_filter_not)

theorem word_runs_extracted_witness:
  "zip_open sample_env runs_docx = Some [(''word/document.xml'', Some (Text runs_docx_document_text))]
   \<and> archive_read [(''word/document.xml'', Some (Text runs_docx_document_text))]
         ''word/document.xml'' = Inr (Text runs_docx_document_text)
   \<and> fromstring sample_env (Text runs_docx_document_text) = Some runs_docx_document_tree
   \<and> word_runs runs_docx_document_tree = [''Hello'', '' '', ''World'']
   \<and> filter whitespace_only (word_runs runs_docx_document_tree) = ['' '']
   \<and> extract_word_text sample_env runs_docx = Inr (''Hello'' @ NL @ ''World'')"
proof -
  have z: "zip_open sample_env runs_docx
      = Some [(''word/document.xml'', Some (Text runs_docx_document_text))]"
    by (simp add: runs_docx_def)
  have r: "archive_read [(''word/document.xml'', Some (Text runs_docx_document_text))]
      ''word/document.xml'' = Inr (Text runs_docx_document_text)"
    by (simp add: archive_read_def)
  have p: "fromstring sample_env (Text runs_docx_document_text) = Some runs_docx_document_tree"
    by simp
  have w: "word_runs runs_docx_document_tree = [''Hello'', '' '', ''World'']"
    by (simp add: word_runs_def runs_docx_document_tree_def xml_eval)
  have f: "filter whitespace_only [''Hello'', '' '', ''World''] = ['' '']"
    by (simp add: whitespace_only_def isspace_def)
  show ?thesis
    using word_runs_extracted [OF z r p] z r p w f
    by (simp add: whitespace_only_def isspace_def)
qed


section \<open>The spreadsheet extractor\<close>

lemma fold_append_nonempty:
  "fold (\<lambda>x acc. (let j = f x in if j \<noteq> [] then acc @ [j] else acc)) xs acc
     = acc @ filter (\<lambda>r. r \<noteq> []) (map f xs)"
  by (induction xs arbitrary: acc) (simp_all add: Let_def)

lemma sheet_rows_eq:
  "sheet_rows L shared root rows =
     rows @ filter (\<lambda>r. r \<noteq> [])
              (map (row_text L shared) (findall_desc (qname SHEET_NS ''row'') root))"
  unfolding sheet_rows_def by (rule fold_append_nonempty)

lemma row_text_assemble:
  "row_text L shared row =
     assemble_row (map (resolved L shared) (findall_child (qname SHEET_NS ''c'') row))"
  by (simp add: row_text_def assemble_row_def resolved_def o_def)

lemma sheet_rows_assemble:
  "sheet_rows L shared root rows =
     rows @ filter (\<lambda>r. r \<noteq> []) (map assemble_row (sheet_cells L shared root))"
  by (simp add: sheet_rows_eq sheet_cells_def o_def row_text_assemble [abs_def])

lemma excel_rows_eq:
  assumes "list_all2 (parses_to L archive)
             (filter (\<lambda>n. startswith n ''xl/worksheets/'' \<and> endswith n ''.xml'') names) roots"
  shows "excel_rows L archive shared names rows =
           Inr (rows @ filter (\<lambda>r. r \<noteq> [])
                         (map assemble_row (concat (map (sheet_cells L shared) roots))))"
  using assms
proof (induction names arbitrary: rows roots)
  case Nil
  then show ?case by simp
next
  case (Cons name names)
  show ?case
  proof (cases "startswith name ''xl/worksheets/'' \<and> endswith name ''.xml''")
    case False
    with Cons show ?thesis by auto
  next
    case True
    with Cons.prems obtain root rest where
      roots: "roots = root # rest" and
      here: "parses_to L archive name root" and
      there: "list_all2 (parses_to L archive)
                (filter (\<lambda>n. startswith n ''xl/worksheets/'' \<and> endswith n ''.xml'') names) rest"
      by (auto simp: list_all2_Cons1)
    from here obtain content where
      "archive_read archive name = Inr content" "fromstring L content = Some root"
      by (auto simp: parses_to_def split: sum.splits)
    with True roots Cons.IH [OF there] show ?thesis
      by (simp add: sheet_rows_assemble)
  qed
qed

lemma extract_excel_text_eq:
  assumes "zip_open L buff = Some archive"
    and "load_shared_strings L archive = Inr shared"
    and "list_all2 (parses_to L archive) (worksheet_names archive) roots"
  shows "extract_excel_text L buff =
           Inr (assemble_rows (concat (map (sheet_cells L shared) roots)))"
  using assms excel_rows_eq [of L archive "namelist archive" roots shared "[]"]
  by (simp add: extract_excel_text_def worksheet_names_def assemble_rows_def)

text \<open>
  C4: when the archive opens, its shared strings load and its worksheet members parse,
  the spreadsheet extractor returns the assembly of the rows of the worksheets, taken in
  member order: in every row each resolved cell value is trimmed and the non-empty
  trimmed values are joined with a single space; a row whose joined text is empty is
  dropped, and the other rows are joined with newlines. With the shared-string table
  A, B, the row of a shared-string cell referencing index 0, an inline-string cell C and
  a literal-value cell 5 has the row text A C 5.
\<close>

theorem excel_rows_assembled:
  assumes "zip_open L buff = Some archive"
    and "load_shared_strings L archive = Inr shared"
    and "list_all2 (parses_to L archive) (worksheet_names archive) roots"
  shows "extract_excel_text L buff =
           Inr (assemble_rows (concat (map (sheet_cells L shared) roots)))
       \<and> row_text sample_env [''A'', ''B'']
           (row_of [ref_cell ''0'', inline_cell ''C'', literal_cell ''5'']) = ''A C 5''"
proof
  show "extract_excel_text L buff =
          Inr (assemble_rows (concat (map (sheet_cells L shared) roots)))"
    by (rule extract_excel_text_eq [OF assms])
next
  show "row_text sample_env [''A'', ''B'']
          (row_of [ref_cell ''0'', inline_cell ''C'', literal_cell ''5'']) = ''A C 5''"
    by (simp add: row_text_def cell_value_def cell_samples xml_eval str_eval)
qed

theorem excel_rows_assembled_witness:
  "zip_open sample_env book_xlsx = Some book_archive
   \<and> load_shared_strings sample_env book_archive = Inr [''A'', ''B'']
   \<and> list_all2 (parses_to sample_env book_archive) (worksheet_names book_archive)
         [book_xlsx_sheet1_tree]
   \<and> sheet_cells sample_env [''A'', ''B''] book_xlsx_sheet1_tree
         = [[''A'', ''C'', ''5''], [[], ''X''], ['' '']]
   \<and> extract_excel_text sample_env book_xlsx = Inr (''A C 5'' @ NL @ ''X'')"
proof -
  have z: "zip_open sample_env book_xlsx = Some book_archive"
    by (simp add: book_xlsx_def book_archive_def)
  have rd: "archive_read book_archive ''xl/sharedStrings.xml''
              = Inr (Text book_xlsx_sharedStrings_text)"
    "archive_read book_archive ''xl/worksheets/sheet1.xml''
              = Inr (Text book_xlsx_sheet1_text)"
    by (simp_all add: archive_read_def book_archive_def)
  have s: "load_shared_strings sample_env book_archive = Inr [''A'', ''B'']"
    by (simp add: load_shared_strings_def rd book_xlsx_sharedStrings_tree_def xml_eval)
  have n: "worksheet_names book_archive = [''xl/worksheets/sheet1.xml'']"
    by (simp add: worksheet_names_def namelist_def book_archive_def str_eval)
  have p: "list_all2 (parses_to sample_env book_archive) (worksheet_names book_archive)
             [book_xlsx_sheet1_tree]"
    by (simp add: n parses_to_def rd)
  have c: "sheet_cells sample_env [''A'', ''B''] book_xlsx_sheet1_tree
             = [[''A'', ''C'', ''5''], [[], ''X''], ['' '']]"
    by (simp add: sheet_cells_def resolved_def cell_value_def book_xlsx_sheet1_tree_def
        xml_eval)
  have a: "assemble_rows [[''A'', ''C'', ''5''], [[], ''X''], ['' '']] = ''A C 5'' @ NL @ ''X''"
    by (simp add: assemble_rows_def assemble_row_def str_eval)
  show ?thesis
    using excel_rows_assembled [OF z s p] z s p c a by simp
qed


section \<open>The entry point: raising, short cuts and degradation\<close>

lemma normalise_str: "\<exists>nb. normalise_base64_payload (JStr p) = Inr nb"
  by (simp add: normalise_base64_payload_def Let_def)

lemma detect_kind_str_Inr: "\<exists>k. detect_kind (JStr n) (JStr m) = Inr k"
  by (simp add: detect_kind_str)

lemma main_run_fields:
  "request_fields (safe_load_json L stdin) = Inr (b, n, m) \<Longrightarrow>
     main_run L stdin = pipeline L b n m"
  by (simp add: main_run_def)

lemma main_of_run: "main_run L stdin = Inr r \<Longrightarrow> main L stdin = Inr (emitted r)"
  by (simp add: main_def)

lemma request_fields_non_object:
  "(\<forall>kvs. v \<noteq> JObj kvs) \<Longrightarrow> request_fields v = Inl AttributeError"
  by (cases v) (simp_all add: request_fields_def py_get_def)

lemma extract_word_text_bad_zip: "zip_open L raw = None \<Longrightarrow> extract_word_text L raw = Inl BadZipFile"
  by (simp add: extract_word_text_def)

lemma extract_excel_text_bad_zip: "zip_open L raw = None \<Longrightarrow> extract_excel_text L raw = Inl BadZipFile"
  by (simp add: extract_excel_text_def)

lemma extract_fallback_bad_zip:
  "zip_open L raw = None \<Longrightarrow> extract_fallback_xml_text L raw = Inl BadZipFile"
  by (simp add: extract_fallback_xml_text_def)

text \<open>The structured extractor called for a kind.\<close>

lemma pipeline_decoded:
  assumes "normalise_base64_payload b = Inr nb" and "nb \<noteq> []"
    and "detect_kind n m = Inr k" and "k \<noteq> []"
    and "b64decode L nb = Some raw"
  shows "pipeline L b n m =
           (let s = (if k = ''word'' then extract_word_text L raw else extract_excel_text L raw)
            in if strip (caught s) = []
               then Inr \<lparr>decode_called = True, structured = Some s,
                        fallback = Some (extract_fallback_xml_text L raw),
                        emitted = [\<lparr>out_text = caught (extract_fallback_xml_text L raw)\<rparr>]\<rparr>
               else Inr \<lparr>decode_called = True, structured = Some s, fallback = None,
                        emitted = [\<lparr>out_text = caught s\<rparr>]\<rparr>)"
  using assms by (simp add: pipeline_def Let_def)


lemma pipeline_cases:
  assumes "normalise_base64_payload b = Inr nb" and "detect_kind n m = Inr k"
  obtains
    (short) "nb = [] \<or> k = []"
      "pipeline L b n m = Inr \<lparr>decode_called = False, structured = None, fallback = None,
                               emitted = [\<lparr>out_text = []\<rparr>]\<rparr>"
  | (undecoded) "nb \<noteq> []" "k \<noteq> []" "b64decode L nb = None"
      "pipeline L b n m = Inr \<lparr>decode_called = True, structured = None, fallback = None,
                               emitted = [\<lparr>out_text = []\<rparr>]\<rparr>"
  | (fell_back) raw s where "nb \<noteq> []" "k \<noteq> []" "b64decode L nb = Some raw"
      "s = (if k = ''word'' then extract_word_text L raw else extract_excel_text L raw)"
      "strip (caught s) = []"
      "pipeline L b n m = Inr \<lparr>decode_called = True, structured = Some s,
                               fallback = Some (extract_fallback_xml_text L raw),
                               emitted = [\<lparr>out_text = caught (extract_fallback_xml_text L raw)\<rparr>]\<rparr>"
  | (structured) raw s where "nb \<noteq> []" "k \<noteq> []" "b64decode L nb = Some raw"
      "s = (if k = ''word'' then extract_word_text L raw else extract_excel_text L raw)"
      "strip (caught s) \<noteq> []"
      "pipeline L b n m = Inr \<lparr>decode_called = True, structured = Some s, fallback = None,
                               emitted = [\<lparr>out_text = caught s\<rparr>]\<rparr>"
proof (cases "nb = [] \<or> k = []")
  case True
  with assms have "pipeline L b n m = Inr \<lparr>decode_called = False, structured = None,
      fallback = None, emitted = [\<lparr>out_text = []\<rparr>]\<rparr>"
    by (auto simp: pipeline_def)
  with True show ?thesis by (rule short)
next
  case False
  then have ne: "nb \<noteq> []" "k \<noteq> []" by simp_all
  show ?thesis
  proof (cases "b64decode L nb")
    case None
    with assms ne have "pipeline L b n m = Inr \<lparr>decode_called = True, structured = None,
        fallback = None, emitted = [\<lparr>out_text = []\<rparr>]\<rparr>"
      by (simp add: pipeline_def)
    with ne None show ?thesis by (rule undecoded)
  next
    case (Some raw)
    define s where "s = (if k = ''word'' then extract_word_text L raw else extract_excel_text L raw)"
    note p = pipeline_decoded [OF assms(1) ne(1) assms(2) ne(2) Some, folded s_def]
    show ?thesis
    proof (cases "strip (caught s) = []")
      case True
      with p have "pipeline L b n m = Inr \<lparr>decode_called = True, structured = Some s,
          fallback = Some (extract_fallback_xml_text L raw),
          emitted = [\<lparr>out_text = caught (extract_fallback_xml_text L raw)\<rparr>]\<rparr>"
        by (simp add: Let_def)
      with ne Some s_def True show ?thesis by (rule fell_back)
    next
      case False
      with p have "pipeline L b n m = Inr \<lparr>decode_called = True, structured = Some s,
          fallback = None, emitted = [\<lparr>out_text = caught s\<rparr>]\<rparr>"
        by (simp add: Let_def)
      with ne Some s_def False show ?thesis by (rule structured)
    qed
  qed
qed


section \<open>The sample requests, run\<close>

lemma strip_id:
  assumes "s \<noteq> []" and "\<not> isspace (hd s)" and "\<not> isspace (last s)"
  shows "strip s = s"
proof -
  have "dropWhile isspace s = s"
    using assms(1,2) by (cases s) simp_all
  moreover have "dropWhile isspace (rev s) = rev s"
    using assms(1,3) by (cases "rev s") (simp_all add: last_rev [symmetric] del: last_rev)
  ultimately show ?thesis
    by (simp add: strip_def rstrip_def)
qed

lemma normalise_plain:
  assumes "s \<noteq> []" and "\<not> isspace (hd s)" and "\<not> isspace (last s)"
    and "hd s \<noteq> CHR ''d''"
  shows "normalise_base64_payload (JStr s) = Inr s"
proof -
  have "\<not> prefix ''data:'' s"
    using assms(1,4) by (cases s) simp_all
  then show ?thesis
    using assms(1) by (simp add: normalise_base64_payload_def strip_id [OF assms(1-3)]
        startswith_def)
qed

lemma sample_normalise [simp]:
  "normalise_base64_payload (JStr broken_docx_base64) = Inr broken_docx_base64"
  "normalise_base64_payload (JStr textless_docx_base64) = Inr textless_docx_base64"
  "normalise_base64_payload (JStr runs_docx_base64) = Inr runs_docx_base64"
  by (rule normalise_plain; simp add: sample_base64_defs isspace_def)+

lemma sample_decode [simp]:
  "map_of sample_payloads broken_docx_base64 = Some broken_docx"
  "map_of sample_payloads textless_docx_base64 = Some textless_docx"
  "map_of sample_payloads runs_docx_base64 = Some runs_docx"
  by (simp_all add: sample_payloads_def sample_base64_defs)

lemma sample_nonempty [simp]:
  "broken_docx_base64 \<noteq> []" "textless_docx_base64 \<noteq> []" "runs_docx_base64 \<noteq> []"
  by (simp_all add: sample_base64_defs)

lemma sample_fields:
  "request_fields (safe_load_json sample_env broken_docx_stdin)
     = Inr (JStr broken_docx_base64, JStr ''a.docx'', JStr [])"
  "request_fields (safe_load_json sample_env textless_docx_stdin)
     = Inr (JStr textless_docx_base64, JStr ''memo.docx'', JStr [])"
  "request_fields (safe_load_json sample_env runs_docx_stdin)
     = Inr (JStr runs_docx_base64, JStr ''letter.docx'', JStr [])"
  "request_fields (safe_load_json sample_env bad_base64_stdin)
     = Inr (JStr ''A'', JStr ''a.docx'', JStr [])"
  "request_fields (safe_load_json sample_env not_zip_stdin)
     = Inr (JStr ''QUJD'', JStr ''a.docx'', JStr [])"
  by (simp_all add: safe_load_json_def sample_requests_def sample_stdin_defs
      sample_base64_defs request_fields_def py_get_def py_or_def)

lemma sample_kinds:
  "detect_kind (JStr ''a.docx'') (JStr []) = Inr ''word''"
  "detect_kind (JStr ''memo.docx'') (JStr []) = Inr ''word''"
  "detect_kind (JStr ''letter.docx'') (JStr []) = Inr ''word''"
  by (simp_all add: detect_kind_str word_family_def str_eval)

lemma broken_docx_run:
  "main_run sample_env broken_docx_stdin =
     Inr \<lparr>decode_called = True, structured = Some (Inl ParseError),
          fallback = Some (Inr ''<a> hello''),
          emitted = [\<lparr>out_text = ''<a> hello''\<rparr>]\<rparr>"
proof -
  have w: "extract_word_text sample_env broken_docx = Inl ParseError"
    by (simp add: extract_word_text_def broken_docx_def archive_read_def)
  have fl: "flatten sample_env (Text broken_docx_document_text) = ''<a> hello''"
    by (simp add: flatten_def strip_xml_tags_def decode_entities_def
        broken_docx_document_text_def str_eval)
  have fb: "extract_fallback_xml_text sample_env broken_docx = Inr ''<a> hello''"
    by (simp add: extract_fallback_xml_text_def broken_docx_def namelist_def archive_read_def
        fl str_eval)
  have "pipeline sample_env (JStr broken_docx_base64) (JStr ''a.docx'') (JStr []) =
      Inr \<lparr>decode_called = True, structured = Some (Inl ParseError),
           fallback = Some (Inr ''<a> hello''),
           emitted = [\<lparr>out_text = ''<a> hello''\<rparr>]\<rparr>"
    by (simp add: pipeline_def sample_kinds w fb caught_def strip_def rstrip_def)
  then show ?thesis
    by (simp add: main_run_fields [OF sample_fields(1)])
qed

lemma bad_base64_run:
  "normalise_base64_payload (JStr ''A'') = Inr ''A''"
  "b64decode sample_env ''A'' = None"
  "main_run sample_env bad_base64_stdin =
     Inr \<lparr>decode_called = True, structured = None, fallback = None,
          emitted = [\<lparr>out_text = []\<rparr>]\<rparr>"
proof -
  show n: "normalise_base64_payload (JStr ''A'') = Inr ''A''"
    by (simp add: normalise_base64_payload_def str_eval)
  show d: "b64decode sample_env ''A'' = None"
    by (simp add: sample_payloads_def sample_base64_defs)
  have "pipeline sample_env (JStr ''A'') (JStr ''a.docx'') (JStr []) =
      Inr \<lparr>decode_called = True, structured = None, fallback = None,
           emitted = [\<lparr>out_text = []\<rparr>]\<rparr>"
    using d by (simp add: pipeline_def n sample_kinds)
  then show "main_run sample_env bad_base64_stdin =
      Inr \<lparr>decode_called = True, structured = None, fallback = None,
           emitted = [\<lparr>out_text = []\<rparr>]\<rparr>"
    by (simp add: main_run_fields [OF sample_fields(4)])
qed

lemma not_zip_run:
  "normalise_base64_payload (JStr ''QUJD'') = Inr ''QUJD''"
  "b64decode sample_env ''QUJD'' = Some (Text ''ABC'')"
  "zip_open sample_env (Text ''ABC'') = None"
  "main_run sample_env not_zip_stdin =
     Inr \<lparr>decode_called = True, structured = Some (Inl BadZipFile),
          fallback = Some (Inl BadZipFile), emitted = [\<lparr>out_text = []\<rparr>]\<rparr>"
proof -
  show n: "normalise_base64_payload (JStr ''QUJD'') = Inr ''QUJD''"
    by (simp add: normalise_base64_payload_def str_eval)
  show d: "b64decode sample_env ''QUJD'' = Some (Text ''ABC'')"
    by (simp add: sample_payloads_def sample_base64_defs)
  show "zip_open sample_env (Text ''ABC'') = None" by simp
  have "pipeline sample_env (JStr ''QUJD'') (JStr ''a.docx'') (JStr []) =
      Inr \<lparr>decode_called = True, structured = Some (Inl BadZipFile),
           fallback = Some (Inl BadZipFile), emitted = [\<lparr>out_text = []\<rparr>]\<rparr>"
    using d
    by (simp add: pipeline_def n sample_kinds extract_word_text_bad_zip
        extract_fallback_bad_zip caught_def strip_def rstrip_def Let_def)
  then show "main_run sample_env not_zip_stdin =
      Inr \<lparr>decode_called = True, structured = Some (Inl BadZipFile),
           fallback = Some (Inl BadZipFile), emitted = [\<lparr>out_text = []\<rparr>]\<rparr>"
    by (simp add: main_run_fields [OF sample_fields(5)])
qed


section \<open>Requests that are not objects, and unknown kinds\<close>

lemma main_invalid_json:
  "json_loads L stdin = None \<Longrightarrow> main L stdin = Inr [\<lparr>out_text = []\<rparr>]"
  by (simp add: main_def main_run_def safe_load_json_def request_fields_def py_get_def
      py_or_def pipeline_def normalise_base64_payload_def)

lemma main_no_recognised_key:
  assumes "json_loads L stdin = Some (JObj kvs)"
    and "map_of kvs ''base64'' = None" and "map_of kvs ''data'' = None"
    and "map_of kvs ''name'' = None" and "map_of kvs ''mime'' = None"
  shows "main L stdin = Inr [\<lparr>out_text = []\<rparr>]"
  using assms
  by (simp add: main_def main_run_def safe_load_json_def request_fields_def py_get_def
      py_or_def pipeline_def normalise_base64_payload_def)

text \<open>
  C10 says that every standard input that is not a JSON object with the recognised
  keys is treated as an empty request and answered with the empty text. This holds for
  an input that is not JSON and for a JSON object without the recognised keys (the two
  lemmas above). It fails for JSON that is not an object: whenever \<^verbatim>\<open>json.loads\<close>
  returns an array, a string, a number, a boolean or \<^verbatim>\<open>null\<close>, \<open>safe_load_json\<close>
  returns it as it is and \<open>main\<close> raises AttributeError (from \<^verbatim>\<open>payload.get\<close>).
\<close>

theorem main_raises_on_non_object:
  assumes "json_loads L stdin = Some v" and "\<forall>kvs. v \<noteq> JObj kvs"
  shows "main L stdin = Inl AttributeError"
  using assms
  by (simp add: main_def main_run_def safe_load_json_def request_fields_non_object)

theorem main_raises_on_non_object_witness:
  "json_loads sample_env ''[]'' = Some (JArr [])
   \<and> (\<forall>kvs. JArr [] \<noteq> JObj kvs)
   \<and> main sample_env ''[]'' = Inl AttributeError"
proof -
  have j: "json_loads sample_env ''[]'' = Some (JArr [])"
    by (simp add: sample_requests_def sample_stdin_defs)
  have n: "\<forall>kvs. JArr [] \<noteq> JObj kvs" by simp
  show ?thesis
    using main_raises_on_non_object [OF j n] j by simp
qed

text \<open>
  C8: when the payload field of the request is a string (or absent) and the filename
  and MIME string give the unknown kind, \<open>main\<close> writes the one object with the empty
  text, and the run calls neither \<^verbatim>\<open>b64decode\<close> nor an extractor (the extractors are
  the only places that open an archive).
\<close>

theorem unknown_kind_short_circuit:
  assumes "request_fields (safe_load_json L stdin) = Inr (JStr p, name, mime)"
    and "detect_kind name mime = Inr []"
  shows "main_run L stdin =
           Inr \<lparr>decode_called = False, structured = None, fallback = None,
                emitted = [\<lparr>out_text = []\<rparr>]\<rparr>
       \<and> main L stdin = Inr [\<lparr>out_text = []\<rparr>]"
proof -
  obtain nb where nb: "normalise_base64_payload (JStr p) = Inr nb"
    using normalise_str by blast
  have "pipeline L (JStr p) name mime =
      Inr \<lparr>decode_called = False, structured = None, fallback = None,
           emitted = [\<lparr>out_text = []\<rparr>]\<rparr>"
    using nb assms(2) by (simp add: pipeline_def)
  then have "main_run L stdin =
      Inr \<lparr>decode_called = False, structured = None, fallback = None,
           emitted = [\<lparr>out_text = []\<rparr>]\<rparr>"
    by (simp add: main_run_fields [OF assms(1)])
  then show ?thesis
    using main_of_run by fastforce
qed

theorem unknown_kind_short_circuit_witness:
  "request_fields (safe_load_json sample_env notes_stdin)
     = Inr (JStr ''QUJD'', JStr ''notes.txt'', JStr ''text/plain'')
   \<and> detect_kind (JStr ''notes.txt'') (JStr ''text/plain'') = Inr []
   \<and> b64decode sample_env ''QUJD'' = Some (Text ''ABC'')
   \<and> main_run sample_env notes_stdin =
       Inr \<lparr>decode_called = False, structured = None, fallback = None,
            emitted = [\<lparr>out_text = []\<rparr>]\<rparr>
   \<and> main sample_env notes_stdin = Inr [\<lparr>out_text = []\<rparr>]"
proof -
  have f: "request_fields (safe_load_json sample_env notes_stdin)
      = Inr (JStr ''QUJD'', JStr ''notes.txt'', JStr ''text/plain'')"
    by (simp add: safe_load_json_def sample_requests_def sample_stdin_defs
        request_fields_def py_get_def py_or_def)
  have k: "detect_kind (JStr ''notes.txt'') (JStr ''text/plain'') = Inr []"
    by (simp add: detect_kind_str word_family_def sheet_family_def str_eval)
  have d: "b64decode sample_env ''QUJD'' = Some (Text ''ABC'')"
    by (simp add: sample_payloads_def sample_base64_defs)
  show ?thesis
    using unknown_kind_short_circuit [OF f k] f k d by simp
qed


section \<open>The entry point never raises on a typed request\<close>

text \<open>
  C1, as stated, fails where it says that the result degrades to the empty text when
  XML parsing fails: the request \<open>broken_docx_stdin\<close> carries an archive whose
  \<^verbatim>\<open>word/document.xml\<close> is the text \<^verbatim>\<open><a>hello\<close>. Parsing it raises, the structured
  text is taken as empty, and the fallback flattens the same member to a non-empty text,
  which is written.
\<close>

theorem parse_failure_counterexample:
  "fromstring sample_env (Text broken_docx_document_text) = None
   \<and> main_run sample_env broken_docx_stdin =
       Inr \<lparr>decode_called = True, structured = Some (Inl ParseError),
            fallback = Some (Inr ''<a> hello''),
            emitted = [\<lparr>out_text = ''<a> hello''\<rparr>]\<rparr>
   \<and> main sample_env broken_docx_stdin = Inr [\<lparr>out_text = ''<a> hello''\<rparr>]"
  using broken_docx_run by (simp add: main_def)

text \<open>
  C1, amended: for every request whose payload, filename and MIME fields are strings
  (or absent), \<open>main\<close> does not raise and writes exactly one object with the one string
  field \<^verbatim>\<open>text\<close>. The text is empty when \<^verbatim>\<open>b64decode\<close> raises, when the bytes do not
  open as an archive, and when the fallback itself raises. When the structured extractor
  raises (a parse failure included), the text is what the fallback returns.
\<close>

theorem main_never_raises:
  assumes "request_fields (safe_load_json L stdin) = Inr (JStr p, JStr n, JStr m)"
  shows "\<exists>r t. main_run L stdin = Inr r \<and> main L stdin = Inr [\<lparr>out_text = t\<rparr>]
           \<and> emitted r = [\<lparr>out_text = t\<rparr>]
           \<and> (\<forall>nb. normalise_base64_payload (JStr p) = Inr nb \<and> b64decode L nb = None
                 \<longrightarrow> t = [])
           \<and> (\<forall>nb raw. normalise_base64_payload (JStr p) = Inr nb
                   \<and> b64decode L nb = Some raw \<and> zip_open L raw = None
                 \<longrightarrow> t = [])
           \<and> (\<forall>e. fallback r = Some (Inl e) \<longrightarrow> t = [])
           \<and> (\<forall>e. structured r = Some (Inl e)
                 \<longrightarrow> (\<exists>f. fallback r = Some f \<and> t = caught f))"
proof -
  obtain nb where nb: "normalise_base64_payload (JStr p) = Inr nb"
    using normalise_str by blast
  obtain k where k: "detect_kind (JStr n) (JStr m) = Inr k"
    using detect_kind_str_Inr by blast
  have run: "main_run L stdin = pipeline L (JStr p) (JStr n) (JStr m)"
    by (rule main_run_fields [OF assms])
  from nb k show ?thesis
  proof (cases rule: pipeline_cases [where L = L])
    case short
    then show ?thesis
      using run nb by (auto simp: main_def)
  next
    case undecoded
    then show ?thesis
      using run nb by (auto simp: main_def)
  next
    case (fell_back raw s)
    have "zip_open L raw = None \<Longrightarrow> caught (extract_fallback_xml_text L raw) = []"
      by (simp add: extract_fallback_bad_zip caught_def)
    then show ?thesis
      using run nb fell_back by (auto simp: main_def caught_def)
  next
    case (structured raw s)
    have "zip_open L raw = None \<Longrightarrow> caught s = []"
      using structured(4)
      by (simp add: extract_word_text_bad_zip extract_excel_text_bad_zip caught_def)
    then show ?thesis
      using run nb structured by (auto simp: main_def caught_def strip_def rstrip_def)
  qed
qed

theorem main_never_raises_witness:
  "request_fields (safe_load_json sample_env bad_base64_stdin)
     = Inr (JStr ''A'', JStr ''a.docx'', JStr [])
   \<and> normalise_base64_payload (JStr ''A'') = Inr ''A''
   \<and> b64decode sample_env ''A'' = None
   \<and> main sample_env bad_base64_stdin = Inr [\<lparr>out_text = []\<rparr>]
   \<and> request_fields (safe_load_json sample_env not_zip_stdin)
     = Inr (JStr ''QUJD'', JStr ''a.docx'', JStr [])
   \<and> b64decode sample_env ''QUJD'' = Some (Text ''ABC'')
   \<and> zip_open sample_env (Text ''ABC'') = None
   \<and> main_run sample_env not_zip_stdin =
       Inr \<lparr>decode_called = True, structured = Some (Inl BadZipFile),
            fallback = Some (Inl BadZipFile), emitted = [\<lparr>out_text = []\<rparr>]\<rparr>
   \<and> main sample_env not_zip_stdin = Inr [\<lparr>out_text = []\<rparr>]
   \<and> request_fields (safe_load_json sample_env broken_docx_stdin)
     = Inr (JStr broken_docx_base64, JStr ''a.docx'', JStr [])
   \<and> main_run sample_env broken_docx_stdin =
       Inr \<lparr>decode_called = True, structured = Some (Inl ParseError),
            fallback = Some (Inr ''<a> hello''),
            emitted = [\<lparr>out_text = ''<a> hello''\<rparr>]\<rparr>"
  using main_never_raises [OF sample_fields(4)] main_never_raises [OF sample_fields(5)]
    main_never_raises [OF sample_fields(1)]
    sample_fields(1,4,5) bad_base64_run not_zip_run broken_docx_run
  by (simp add: main_def)


section \<open>Data URIs\<close>







lemma runs_docx_pipeline:
  "pipeline sample_env (JStr runs_docx_base64) (JStr ''letter.docx'') (JStr []) =
     Inr \<lparr>decode_called = True, structured = Some (Inr (''Hello'' @ NL @ ''World'')),
          fallback = None, emitted = [\<lparr>out_text = ''Hello'' @ NL @ ''World''\<rparr>]\<rparr>"
proof -
  have w: "extract_word_text sample_env runs_docx = Inr (''Hello'' @ NL @ ''World'')"
    by (simp add: extract_word_text_def runs_docx_def archive_read_def
        runs_docx_document_tree_def xml_eval str_eval)
  show ?thesis
    by (simp add: pipeline_def sample_kinds w caught_def NL_def str_eval)
qed





section \<open>The fallback\<close>

subsection \<open>Flattening keeps a text that is not blank from becoming empty\<close>

lemma not_blank_iff: "\<not> whitespace_only s \<longleftrightarrow> (\<exists>c \<in> set s. \<not> isspace c)"
  by (simp add: whitespace_only_def list_all_iff)

lemma replace_not_blank:
  assumes "(\<exists>c \<in> set new. \<not> isspace c) \<or> whitespace_only old"
    and "\<not> whitespace_only s"
  shows "\<not> whitespace_only (replace old new s)"
  using assms
proof (induction old new s rule: replace.induct)
  case (1 old new)
  then show ?case by (simp add: whitespace_only_def)
next
  case (2 old new c cs)
  show ?case
  proof (cases "old \<noteq> [] \<and> prefix old (c # cs)")
    case True
    then obtain rest where rest: "c # cs = old @ rest"
      by (auto simp: prefix_def)
    then have dr: "drop (length old) (c # cs) = rest"
      by simp
    from "2.prems"(1) show ?thesis
    proof
      assume "\<exists>c \<in> set new. \<not> isspace c"
      with True show ?thesis
        by (auto simp: not_blank_iff)
    next
      assume old: "whitespace_only old"
      with "2.prems"(2) rest have "\<not> whitespace_only rest"
        by (auto simp: whitespace_only_def)
      with "2.IH"(1) [OF True] "2.prems"(1) dr
      have "\<not> whitespace_only (replace old new rest)"
        by simp
      with True dr show ?thesis
        by (auto simp: not_blank_iff)
    qed
  next
    case False
    show ?thesis
    proof (cases "isspace c")
      case True
      with "2.prems"(2) have "\<not> whitespace_only cs"
        by (simp add: whitespace_only_def)
      with "2.IH"(2) [OF False] "2.prems"(1) have "\<not> whitespace_only (replace old new cs)"
        by simp
      with False show ?thesis
        by (auto simp: not_blank_iff)
    next
      case nonspace: False
      with False show ?thesis
        by (auto simp: not_blank_iff)
    qed
  qed
qed

lemma replace_new_not_blank:
  "\<exists>c \<in> set new. \<not> isspace c \<Longrightarrow> \<not> whitespace_only s
     \<Longrightarrow> \<not> whitespace_only (replace old new s)"
  by (rule replace_not_blank) simp_all

lemma replace_blank_old:
  "whitespace_only old \<Longrightarrow> \<not> whitespace_only s
     \<Longrightarrow> \<not> whitespace_only (replace old new s)"
  by (rule replace_not_blank) simp_all

lemma decode_entities_not_blank:
  assumes "\<not> whitespace_only s"
  shows "\<not> whitespace_only (decode_entities s)"
  unfolding decode_entities_def
  by (intro replace_new_not_blank assms) (simp_all add: isspace_def)

lemma blank_controls:
  "whitespace_only [CHR 0x0D]" "whitespace_only [CHR 0x0A]" "whitespace_only [CHR 0x09]"
  by (simp_all add: whitespace_only_def isspace_def)

lemma tagged_not_blank:
  assumes "\<not> whitespace_only s"
  shows "\<not> whitespace_only
           (replace ''>'' ''> ''
             (replace ''<'' '' <''
               (replace [CHR 0x09] '' ''
                 (replace [CHR 0x0A] '' ''
                   (replace [CHR 0x0D] '' '' (decode_entities s))))))"
proof -
  note e = decode_entities_not_blank [OF assms]
  note a = replace_blank_old [OF blank_controls(1) e, of "'' ''"]
  note b = replace_blank_old [OF blank_controls(2) a, of "'' ''"]
  note c = replace_blank_old [OF blank_controls(3) b, of "'' ''"]
  have lt: "\<exists>c \<in> set '' <''. \<not> isspace c" and gt: "\<exists>c \<in> set ''> ''. \<not> isspace c"
    by (simp_all add: isspace_def)
  note d = replace_new_not_blank [OF lt c, of "''<''"]
  show ?thesis
    by (rule replace_new_not_blank [OF gt d])
qed

lemma split_ws_not_blank:
  assumes "\<not> whitespace_only s"
  shows "\<exists>w ws. split_ws s = w # ws \<and> \<not> whitespace_only w"
proof -
  let ?t = "dropWhile isspace s"
  have ne: "?t \<noteq> []"
    using assms by (simp add: whitespace_only_def list_all_iff)
  then have hd: "\<not> isspace (hd ?t)"
    by (metis hd_dropWhile)
  then have "hd ?t \<in> set (takeWhile (\<lambda>c. \<not> isspace c) ?t)"
    using ne by (cases ?t) simp_all
  then have "\<not> whitespace_only (takeWhile (\<lambda>c. \<not> isspace c) ?t)"
    using hd by (auto simp: not_blank_iff)
  moreover have "split_ws s = takeWhile (\<lambda>c. \<not> isspace c) ?t
      # split_ws (dropWhile (\<lambda>c. \<not> isspace c) ?t)"
    using ne by (subst split_ws.simps) (simp add: Let_def)
  ultimately show ?thesis by blast
qed

lemma join_Cons_not_blank: "\<not> whitespace_only w \<Longrightarrow> \<not> whitespace_only (join sep (w # ws))"
  by (cases ws) (auto simp: not_blank_iff)

lemma flatten_not_empty:
  assumes "\<not> whitespace_only (decode_ignore L d)"
  shows "flatten L d \<noteq> []"
proof -
  obtain w ws where "strip_xml_tags (decode_ignore L d) = w # ws" "\<not> whitespace_only w"
    using split_ws_not_blank [OF tagged_not_blank [OF assms]]
    unfolding strip_xml_tags_def by blast
  then have "\<not> whitespace_only (join '' '' (strip_xml_tags (decode_ignore L d)))"
    by (simp add: join_Cons_not_blank)
  then show ?thesis
    by (simp add: flatten_def strip_Nil_iff)
qed

subsection \<open>What the fallback returns\<close>

lemma fallback_rows_eq:
  assumes "list_all (readable archive) (filter (\<lambda>n. endswith (lower n) ''.xml'') names)"
  shows "fallback_rows L archive names rows =
           Inr (rows @ filter (\<lambda>r. r \<noteq> [])
                         (map (flat_member L archive)
                            (filter (\<lambda>n. endswith (lower n) ''.xml'') names)))"
  using assms
proof (induction names arbitrary: rows)
  case Nil
  then show ?case by simp
next
  case (Cons name names)
  show ?case
  proof (cases "endswith (lower name) ''.xml''")
    case False
    with Cons show ?thesis by simp
  next
    case True
    with Cons.prems obtain d where d: "archive_read archive name = Inr d"
      by (auto simp: readable_def split: sum.splits)
    from True Cons.prems
    have "list_all (readable archive) (filter (\<lambda>n. endswith (lower n) ''.xml'') names)"
      by simp
    note IH = Cons.IH [OF this]
    show ?thesis
      using True d by (simp add: IH flat_member_def)
  qed
qed

lemma extract_fallback_eq:
  assumes "zip_open L raw = Some archive"
    and "list_all (readable archive) (xml_member_names archive)"
  shows "extract_fallback_xml_text L raw =
           Inr (join NL (filter (\<lambda>r. r \<noteq> [])
                           (map (flat_member L archive) (xml_member_names archive))))"
  using assms fallback_rows_eq [of archive "namelist archive" L "[]"]
  by (simp add: extract_fallback_xml_text_def xml_member_names_def)

lemma lower_keeps_xml_suffix: "endswith n ''.xml'' \<Longrightarrow> endswith (lower n) ''.xml''"
proof -
  assume "endswith n ''.xml''"
  then have "suffix (map lower_char ''.xml'') (map lower_char n)"
    unfolding endswith_def by (rule map_mono_suffix)
  moreover have "map lower_char ''.xml'' = ''.xml''"
    by (simp add: lower_char_def)
  ultimately show ?thesis
    by (simp add: endswith_def lower_def)
qed

lemma xml_suffix_member:
  "n \<in> set (namelist archive) \<Longrightarrow> endswith n ''.xml'' \<Longrightarrow> n \<in> set (xml_member_names archive)"
  by (simp add: xml_member_names_def lower_keeps_xml_suffix)

lemma join_not_empty:
  "xs \<noteq> [] \<Longrightarrow> \<forall>x \<in> set xs. x \<noteq> [] \<Longrightarrow> join sep xs \<noteq> []"
  by (induction sep xs rule: join.induct) auto

lemma fallback_not_empty:
  assumes "zip_open L raw = Some archive"
    and "list_all (readable archive) (xml_member_names archive)"
    and "name \<in> set (namelist archive)" and "endswith name ''.xml''"
    and "archive_read archive name = Inr d"
    and "\<not> whitespace_only (decode_ignore L d)"
  shows "\<exists>out. out \<noteq> [] \<and> extract_fallback_xml_text L raw = Inr out"
proof -
  let ?rows = "filter (\<lambda>r. r \<noteq> []) (map (flat_member L archive) (xml_member_names archive))"
  have "flat_member L archive name = flatten L d"
    using assms(5) by (simp add: flat_member_def)
  moreover have "flatten L d \<noteq> []"
    by (rule flatten_not_empty [OF assms(6)])
  moreover have "name \<in> set (xml_member_names archive)"
    by (rule xml_suffix_member [OF assms(3,4)])
  ultimately have "flatten L d \<in> set ?rows"
    by force
  then have "?rows \<noteq> []"
    by (metis empty_iff list.set(1))
  moreover have "\<forall>x \<in> set ?rows. x \<noteq> []"
    by simp
  ultimately have "join NL ?rows \<noteq> []"
    by (rule join_not_empty)
  then show ?thesis
    using extract_fallback_eq [OF assms(1,2)] by simp
qed

lemma pipeline_fallback_iff:
  assumes "pipeline L b n m = Inr r"
  shows "fallback r \<noteq> None \<longleftrightarrow> (\<exists>s. structured r = Some s \<and> whitespace_only (caught s))"
  using assms
  by (auto simp: pipeline_def Let_def strip_Nil_iff [symmetric]
      split: sum.splits if_splits option.splits)

lemma pipeline_fallback_what:
  assumes "pipeline L b n m = Inr r" and "fallback r \<noteq> None"
  shows "\<exists>nb raw. b64decode L nb = Some raw
           \<and> fallback r = Some (extract_fallback_xml_text L raw)
           \<and> emitted r = [\<lparr>out_text = caught (extract_fallback_xml_text L raw)\<rparr>]"
  using assms
  by (auto simp: pipeline_def Let_def split: sum.splits if_splits option.splits) blast+

lemma main_run_pipeline:
  "main_run L stdin = Inr r \<Longrightarrow> \<exists>b n m. pipeline L b n m = Inr r"
  by (auto simp: main_run_def split: sum.splits)

lemma textless_word_falls_back:
  assumes "request_fields (safe_load_json L stdin) = Inr (b, n, m)"
    and "normalise_base64_payload b = Inr nb" and "nb \<noteq> []"
    and "detect_kind n m = Inr ''word''"
    and "b64decode L nb = Some raw"
    and "extract_word_text L raw = Inr t" and "whitespace_only t"
    and "extract_fallback_xml_text L raw = Inr out"
  shows "main_run L stdin =
           Inr \<lparr>decode_called = True, structured = Some (Inr t), fallback = Some (Inr out),
                emitted = [\<lparr>out_text = out\<rparr>]\<rparr>"
proof -
  have "strip (caught (Inr t)) = []"
    using assms(7) by (simp add: caught_def strip_Nil_iff)
  then show ?thesis
    using pipeline_decoded [OF assms(2,3,4) _ assms(5)] assms(6,8)
    by (simp add: main_run_fields [OF assms(1)] caught_def)
qed

subsection \<open>The claim\<close>

text \<open>
  C5: in every run of \<open>main\<close> that does not raise, the fallback is called if and only if
  the structured extractor was called and its text, taken as empty when it raised, is
  empty or whitespace-only. When the fallback is called it is given the decoded bytes
  and its result is what is written. On an archive that opens and whose \<^verbatim>\<open>.xml\<close>
  members can be read, the fallback returns the flattened texts, those that are not
  empty, of every member whose name (lowered) ends in \<^verbatim>\<open>.xml\<close>, one per line in
  member order; every member whose name ends in \<^verbatim>\<open>.xml\<close> is among them. So a Word
  request whose archive has no run text and has a member ending in \<^verbatim>\<open>.xml\<close> whose
  decoded content is not blank is answered with a non-empty text, the fallback's.
\<close>

theorem fallback_activation:
  "(\<forall>r. main_run L stdin = Inr r \<longrightarrow>
      (fallback r \<noteq> None \<longleftrightarrow> (\<exists>s. structured r = Some s \<and> whitespace_only (caught s))))
   \<and> (\<forall>r. main_run L stdin = Inr r \<and> fallback r \<noteq> None \<longrightarrow>
        (\<exists>nb raw. b64decode L nb = Some raw
           \<and> fallback r = Some (extract_fallback_xml_text L raw)
           \<and> emitted r = [\<lparr>out_text = caught (extract_fallback_xml_text L raw)\<rparr>]))
   \<and> (\<forall>raw archive. zip_open L raw = Some archive
          \<and> list_all (readable archive) (xml_member_names archive) \<longrightarrow>
        extract_fallback_xml_text L raw =
          Inr (join NL (filter (\<lambda>r. r \<noteq> [])
                          (map (flat_member L archive) (xml_member_names archive))))
        \<and> (\<forall>n \<in> set (namelist archive). endswith n ''.xml''
              \<longrightarrow> n \<in> set (xml_member_names archive)))
   \<and> (\<forall>b n m nb raw archive t name d.
          request_fields (safe_load_json L stdin) = Inr (b, n, m)
          \<and> normalise_base64_payload b = Inr nb \<and> nb \<noteq> []
          \<and> detect_kind n m = Inr ''word''
          \<and> b64decode L nb = Some raw \<and> zip_open L raw = Some archive
          \<and> list_all (readable archive) (xml_member_names archive)
          \<and> extract_word_text L raw = Inr t \<and> whitespace_only t
          \<and> name \<in> set (namelist archive) \<and> endswith name ''.xml''
          \<and> archive_read archive name = Inr d
          \<and> \<not> whitespace_only (decode_ignore L d) \<longrightarrow>
        (\<exists>out. out \<noteq> []
           \<and> main_run L stdin =
               Inr \<lparr>decode_called = True, structured = Some (Inr t),
                    fallback = Some (Inr out), emitted = [\<lparr>out_text = out\<rparr>]\<rparr>
           \<and> main L stdin = Inr [\<lparr>out_text = out\<rparr>]))"
proof (intro conjI allI impI ballI)
  fix r
  assume "main_run L stdin = Inr r"
  then obtain b n m where "pipeline L b n m = Inr r"
    using main_run_pipeline by blast
  then show "fallback r \<noteq> None \<longleftrightarrow> (\<exists>s. structured r = Some s \<and> whitespace_only (caught s))"
    by (rule pipeline_fallback_iff)
next
  fix r
  assume a: "main_run L stdin = Inr r \<and> fallback r \<noteq> None"
  then obtain b n m where "pipeline L b n m = Inr r"
    using main_run_pipeline by blast
  with a show "\<exists>nb raw. b64decode L nb = Some raw
      \<and> fallback r = Some (extract_fallback_xml_text L raw)
      \<and> emitted r = [\<lparr>out_text = caught (extract_fallback_xml_text L raw)\<rparr>]"
    using pipeline_fallback_what by blast
next
  fix raw and archive :: "'a archive"
  assume "zip_open L raw = Some archive \<and> list_all (readable archive) (xml_member_names archive)"
  then show "extract_fallback_xml_text L raw =
      Inr (join NL (filter (\<lambda>r. r \<noteq> [])
                      (map (flat_member L archive) (xml_member_names archive))))"
    by (simp add: extract_fallback_eq)
next
  fix raw and archive :: "'a archive" and n
  assume "zip_open L raw = Some archive \<and> list_all (readable archive) (xml_member_names archive)"
  assume "n \<in> set (namelist archive)" "endswith n ''.xml''"
  then show "n \<in> set (xml_member_names archive)"
    by (rule xml_suffix_member)
next
  fix b n m nb raw and archive :: "'a archive" and t name d
  assume a: "request_fields (safe_load_json L stdin) = Inr (b, n, m)
      \<and> normalise_base64_payload b = Inr nb \<and> nb \<noteq> []
      \<and> detect_kind n m = Inr ''word''
      \<and> b64decode L nb = Some raw \<and> zip_open L raw = Some archive
      \<and> list_all (readable archive) (xml_member_names archive)
      \<and> extract_word_text L raw = Inr t \<and> whitespace_only t
      \<and> name \<in> set (namelist archive) \<and> endswith name ''.xml''
      \<and> archive_read archive name = Inr d
      \<and> \<not> whitespace_only (decode_ignore L d)"
  then obtain out where out: "out \<noteq> []" "extract_fallback_xml_text L raw = Inr out"
    using fallback_not_empty [of L raw archive name d] by blast
  have run: "main_run L stdin =
      Inr \<lparr>decode_called = True, structured = Some (Inr t), fallback = Some (Inr out),
           emitted = [\<lparr>out_text = out\<rparr>]\<rparr>"
    using a out(2) textless_word_falls_back [of L stdin b n m nb raw t out] by blast
  then have "main L stdin = Inr [\<lparr>out_text = out\<rparr>]"
    by (simp add: main_def)
  with out(1) run show "\<exists>out. out \<noteq> []
      \<and> main_run L stdin =
          Inr \<lparr>decode_called = True, structured = Some (Inr t),
               fallback = Some (Inr out), emitted = [\<lparr>out_text = out\<rparr>]\<rparr>
      \<and> main L stdin = Inr [\<lparr>out_text = out\<rparr>]"
    by blast
qed

lemma textless_flat:
  "flatten sample_env (Text textless_docx_document_text) = textless_docx_flat_document"
  "flatten sample_env (Text textless_docx_app_text) = textless_docx_flat_app"
  by (simp_all add: flatten_def strip_xml_tags_def decode_entities_def
      textless_docx_document_text_def textless_docx_app_text_def
      textless_docx_flat_document_def textless_docx_flat_app_def str_eval)

lemma textless_archive_facts:
  "zip_open sample_env textless_docx = Some textless_archive"
  "xml_member_names textless_archive = [''word/document.xml'', ''docProps/app.xml'']"
  "archive_read textless_archive ''word/document.xml'' = Inr (Text textless_docx_document_text)"
  "archive_read textless_archive ''docProps/app.xml'' = Inr (Text textless_docx_app_text)"
  "namelist textless_archive = [''word/document.xml'', ''docProps/app.xml'']"
  by (simp_all add: textless_docx_def textless_archive_def xml_member_names_def namelist_def
      archive_read_def str_eval)

lemma textless_word_text: "extract_word_text sample_env textless_docx = Inr []"
  by (simp add: extract_word_text_def textless_archive_facts textless_docx_document_tree_def
      xml_eval)

lemma runs_docx_run:
  "main_run sample_env runs_docx_stdin =
     Inr \<lparr>decode_called = True, structured = Some (Inr (''Hello'' @ NL @ ''World'')),
          fallback = None, emitted = [\<lparr>out_text = ''Hello'' @ NL @ ''World''\<rparr>]\<rparr>"
  using runs_docx_pipeline by (simp add: main_run_fields [OF sample_fields(3)])

theorem fallback_activation_witness:
  "request_fields (safe_load_json sample_env textless_docx_stdin)
     = Inr (JStr textless_docx_base64, JStr ''memo.docx'', JStr [])
   \<and> normalise_base64_payload (JStr textless_docx_base64) = Inr textless_docx_base64
   \<and> textless_docx_base64 \<noteq> []
   \<and> detect_kind (JStr ''memo.docx'') (JStr []) = Inr ''word''
   \<and> b64decode sample_env textless_docx_base64 = Some textless_docx
   \<and> zip_open sample_env textless_docx = Some textless_archive
   \<and> list_all (readable textless_archive) (xml_member_names textless_archive)
   \<and> extract_word_text sample_env textless_docx = Inr []
   \<and> whitespace_only []
   \<and> ''docProps/app.xml'' \<in> set (namelist textless_archive)
   \<and> endswith ''docProps/app.xml'' ''.xml''
   \<and> archive_read textless_archive ''docProps/app.xml'' = Inr (Text textless_docx_app_text)
   \<and> \<not> whitespace_only (decode_ignore sample_env (Text textless_docx_app_text))
   \<and> extract_fallback_xml_text sample_env textless_docx =
       Inr (textless_docx_flat_document @ NL @ textless_docx_flat_app)
   \<and> main_run sample_env textless_docx_stdin =
       Inr \<lparr>decode_called = True, structured = Some (Inr []),
            fallback = Some (Inr (textless_docx_flat_document @ NL @ textless_docx_flat_app)),
            emitted = [\<lparr>out_text = textless_docx_flat_document @ NL @ textless_docx_flat_app\<rparr>]\<rparr>
   \<and> main_run sample_env runs_docx_stdin =
       Inr \<lparr>decode_called = True, structured = Some (Inr (''Hello'' @ NL @ ''World'')),
            fallback = None, emitted = [\<lparr>out_text = ''Hello'' @ NL @ ''World''\<rparr>]\<rparr>"
proof -
  note w = fallback_activation [of sample_env textless_docx_stdin]
  have rd: "list_all (readable textless_archive) (xml_member_names textless_archive)"
    by (simp add: textless_archive_facts readable_def)
  have ws: "whitespace_only []"
    by (simp add: whitespace_only_def)
  have mem: "''docProps/app.xml'' \<in> set (namelist textless_archive)"
    "endswith ''docProps/app.xml'' ''.xml''"
    by (simp_all add: textless_archive_facts str_eval)
  have nb: "\<not> whitespace_only (decode_ignore sample_env (Text textless_docx_app_text))"
    by (simp add: whitespace_only_def textless_docx_app_text_def isspace_def)
  have dec: "b64decode sample_env textless_docx_base64 = Some textless_docx"
    by simp
  have flat: "map (flat_member sample_env textless_archive) (xml_member_names textless_archive)
      = [textless_docx_flat_document, textless_docx_flat_app]"
    by (simp add: textless_archive_facts flat_member_def textless_flat)
  have ne: "textless_docx_flat_document \<noteq> []" "textless_docx_flat_app \<noteq> []"
    by (simp_all add: textless_docx_flat_document_def textless_docx_flat_app_def)
  from w textless_archive_facts(1) rd
  have fb: "extract_fallback_xml_text sample_env textless_docx =
      Inr (textless_docx_flat_document @ NL @ textless_docx_flat_app)"
    by (simp add: flat ne)
  have run: "main_run sample_env textless_docx_stdin =
      Inr \<lparr>decode_called = True, structured = Some (Inr []),
           fallback = Some (Inr (textless_docx_flat_document @ NL @ textless_docx_flat_app)),
           emitted = [\<lparr>out_text = textless_docx_flat_document @ NL @ textless_docx_flat_app\<rparr>]\<rparr>"
    by (rule textless_word_falls_back [OF sample_fields(2) sample_normalise(2)
          sample_nonempty(2) sample_kinds(2) dec textless_word_text ws fb])
  show ?thesis
    using sample_fields(2) textless_archive_facts(1,4) rd ws mem nb fb run runs_docx_run
      textless_word_text sample_kinds(2)
    by simp
qed


end
